theory Spec2Isabelle
  imports Main "HOL-Library.Word"
begin

section \<open>JavaScript values\<close>

text \<open>
  The three services (service-livres, service-utilisateurs, service-commandes) are
  Express handlers over JSON bodies. A value of the handlers is one of JavaScript's
  \<open>undefined\<close>, \<open>null\<close>, a boolean, a number, a string, an array or an object.
  A number is an integer from \<open>-2^53\<close> to \<open>2^53 - 1\<close>, a word of 54 bits read as signed:
  these are numbers that a double holds exactly and that JavaScript prints as their
  decimal digits. The model has no fractions, no number of larger magnitude, no NaN and
  no infinity. A \<open>Date\<close> is represented by its epoch milliseconds as a number (the
  ISO-8601 text that \<open>JSON.stringify\<close> renders is not modelled). Strings are byte
  strings (UTF-8).
\<close>

type_synonym number = "54 word"

datatype jsval =
    JUndefined
  | JNull
  | JBool bool
  | JNum number
  | JStr string
  | JArr "jsval list"
  | JObj "(string \<times> jsval) list"

text \<open>Truthiness, as tested by \<open>!x\<close>, \<open>if (x)\<close> and \<open>x && y\<close>.\<close>

fun truthy :: "jsval \<Rightarrow> bool" where
  "truthy JUndefined = False"
| "truthy JNull = False"
| "truthy (JBool b) = b"
| "truthy (JNum n) = (n \<noteq> 0)"
| "truthy (JStr s) = (s \<noteq> [])"
| "truthy (JArr xs) = True"
| "truthy (JObj kvs) = True"

text \<open>
  Property read \<open>v.k\<close> on a value that is neither \<open>null\<close> nor \<open>undefined\<close>: an own
  member of an object, \<open>undefined\<close> otherwise (the handlers read only \<open>name\<close> and
  \<open>title\<close>, which no primitive wrapper or array defines). \<open>JSON.parse\<close> keeps the
  last of two members with the same key.
\<close>

definition get_prop :: "jsval \<Rightarrow> string \<Rightarrow> jsval" where
  "get_prop v k =
     (case v of
        JObj kvs \<Rightarrow> (case map_of (rev kvs) k of Some x \<Rightarrow> x | None \<Rightarrow> JUndefined)
      | _ \<Rightarrow> JUndefined)"

text \<open>\<open>typeof v === 'undefined'\<close>.\<close>

definition is_undefined :: "jsval \<Rightarrow> bool" where
  "is_undefined v = (case v of JUndefined \<Rightarrow> True | _ \<Rightarrow> False)"

text \<open>\<open>v == null\<close>: reading a property of such a value throws a TypeError.\<close>

definition is_nullish :: "jsval \<Rightarrow> bool" where
  "is_nullish v = (case v of JUndefined \<Rightarrow> True | JNull \<Rightarrow> True | _ \<Rightarrow> False)"

subsection \<open>Template strings\<close>

definition digit_char :: "nat \<Rightarrow> char" where
  "digit_char d = char_of (48 + d)"

fun show_nat :: "nat \<Rightarrow> string" where
  "show_nat n = (if n < 10 then [digit_char n] else show_nat (n div 10) @ [digit_char (n mod 10)])"

declare show_nat.simps [simp del]

definition show_int :: "int \<Rightarrow> string" where
  "show_int i = (if i < 0 then CHR ''-'' # show_nat (nat (- i)) else show_nat (nat i))"

fun join_comma :: "string list \<Rightarrow> string" where
  "join_comma [] = []"
| "join_comma [s] = s"
| "join_comma (s # t # ss) = s @ '','' @ join_comma (t # ss)"

text \<open>
  The interpolation \<open>`${v}`\<close> converts \<open>v\<close> to a string. For an object the conversion
  calls its \<open>toString\<close>: an object parsed from JSON that has a member of that name has
  no callable one, and the conversion throws a TypeError; any other object gives
  \<open>[object Object]\<close>. An array joins the conversions of its elements, \<open>null\<close> and
  \<open>undefined\<close> counting as empty, and throws when one of them does.
  \<open>to_string_throws\<close> says whether the conversion throws, \<open>to_string\<close> is the string it
  gives when it does not.
\<close>

fun to_string_throws :: "jsval \<Rightarrow> bool" where
  "to_string_throws (JObj kvs) = (''toString'' \<in> fst ` set kvs)"
| "to_string_throws (JArr xs) = (\<exists>x \<in> set xs. to_string_throws x)"
| "to_string_throws v = False"

fun to_string :: "jsval \<Rightarrow> string" where
  "to_string JUndefined = ''undefined''"
| "to_string JNull = ''null''"
| "to_string (JBool b) = (if b then ''true'' else ''false'')"
| "to_string (JNum n) = show_int (sint n)"
| "to_string (JStr s) = s"
| "to_string (JArr xs) =
     join_comma (map (\<lambda>x. if is_nullish x then [] else to_string x) xs)"
| "to_string (JObj kvs) = ''[object Object]''"

subsection \<open>parseInt\<close>

text \<open>\<open>s.startsWith(p)\<close>.\<close>

fun starts_with :: "string \<Rightarrow> string \<Rightarrow> bool" where
  "starts_with s [] = True"
| "starts_with [] (p # ps) = False"
| "starts_with (c # cs) (p # ps) = (c = p \<and> starts_with cs ps)"

text \<open>
  The white space and line terminators of ECMAScript, in UTF-8: TAB, LF, VT, FF, CR,
  SP, U+00A0, U+1680, U+2000 to U+200A, U+2028, U+2029, U+202F, U+205F, U+3000, U+FEFF.
\<close>

definition white_space :: "string list" where
  "white_space =
     [[CHR 0x09], [CHR 0x0A], [CHR 0x0B], [CHR 0x0C], [CHR 0x0D], [CHR 0x20],
      [CHR 0xC2, CHR 0xA0],
      [CHR 0xE1, CHR 0x9A, CHR 0x80],
      [CHR 0xE2, CHR 0x80, CHR 0x80], [CHR 0xE2, CHR 0x80, CHR 0x81],
      [CHR 0xE2, CHR 0x80, CHR 0x82], [CHR 0xE2, CHR 0x80, CHR 0x83],
      [CHR 0xE2, CHR 0x80, CHR 0x84], [CHR 0xE2, CHR 0x80, CHR 0x85],
      [CHR 0xE2, CHR 0x80, CHR 0x86], [CHR 0xE2, CHR 0x80, CHR 0x87],
      [CHR 0xE2, CHR 0x80, CHR 0x88], [CHR 0xE2, CHR 0x80, CHR 0x89],
      [CHR 0xE2, CHR 0x80, CHR 0x8A],
      [CHR 0xE2, CHR 0x80, CHR 0xA8], [CHR 0xE2, CHR 0x80, CHR 0xA9],
      [CHR 0xE2, CHR 0x80, CHR 0xAF],
      [CHR 0xE2, CHR 0x81, CHR 0x9F],
      [CHR 0xE3, CHR 0x80, CHR 0x80],
      [CHR 0xEF, CHR 0xBB, CHR 0xBF]]"

text \<open>The number of bytes of the white space character at the head of a string, if any.\<close>

fun ws_length :: "string list \<Rightarrow> string \<Rightarrow> nat" where
  "ws_length [] s = 0"
| "ws_length (w # ws) s = (if starts_with s w then length w else ws_length ws s)"

function trim_start :: "string \<Rightarrow> string" where
  "trim_start s =
     (if ws_length white_space s = 0 \<or> s = [] then s
      else trim_start (drop (ws_length white_space s) s))"
  by pat_completeness auto
termination
  by (relation "measure length") auto

declare trim_start.simps [simp del]

text \<open>
  \<open>parseInt(string, radix)\<close> of ECMAScript on a UTF-8 string: leading white space is
  skipped, one sign is read, with radix 0 (or none given) or 16 a prefix \<open>0x\<close> selects
  radix 16, and the longest run of digits of the radix is the value; \<open>None\<close> is NaN.
  The value is the exact integer (the rounding of a number beyond \<open>2^53\<close> is not
  modelled).
\<close>

definition digit_val :: "char \<Rightarrow> nat option" where
  "digit_val c =
     (let n = (of_char c :: nat) in
      if 48 \<le> n \<and> n \<le> 57 then Some (n - 48)
      else if 97 \<le> n \<and> n \<le> 122 then Some (n - 87)
      else if 65 \<le> n \<and> n \<le> 90 then Some (n - 55)
      else None)"

definition is_digit_of :: "nat \<Rightarrow> char \<Rightarrow> bool" where
  "is_digit_of R c = (case digit_val c of Some d \<Rightarrow> d < R | None \<Rightarrow> False)"

definition digits_value :: "nat \<Rightarrow> string \<Rightarrow> nat" where
  "digits_value R z =
     foldl (\<lambda>acc c. acc * R + (case digit_val c of Some d \<Rightarrow> d | None \<Rightarrow> 0)) 0 z"

definition parseInt :: "string \<Rightarrow> nat \<Rightarrow> int option" where
  "parseInt str radix =
     (let S = trim_start str;
          sign = (if S \<noteq> [] \<and> hd S = CHR ''-'' then - 1 else (1::int));
          S1 = (if S \<noteq> [] \<and> (hd S = CHR ''+'' \<or> hd S = CHR ''-'') then tl S else S)
      in if radix \<noteq> 0 \<and> (radix < 2 \<or> 36 < radix) then None
         else
           let stripPrefix = (radix = 0 \<or> radix = 16);
               R0 = (if radix = 0 then 10 else radix);
               hex = (stripPrefix \<and> (take 2 S1 = ''0x'' \<or> take 2 S1 = ''0X''));
               S2 = (if hex then drop 2 S1 else S1);
               R = (if hex then 16 else R0);
               Z = takeWhile (is_digit_of R) S2
           in if Z = [] then None else Some (sign * int (digits_value R Z)))"

section \<open>The datastores\<close>

text \<open>
  What a column of an SQLite table holds: NULL, an integer or a text, and the
  JavaScript value that Sequelize gives back for it. The integers are the numbers of
  the model; it has no larger integer, no REAL and no BLOB.
\<close>

datatype sql_value = SqlNull | SqlInteger number | SqlText string

fun js_of_sql :: "sql_value \<Rightarrow> jsval" where
  "js_of_sql SqlNull = JNull"
| "js_of_sql (SqlInteger n) = JNum n"
| "js_of_sql (SqlText s) = JStr s"

text \<open>
  The three models. A row of a table has SQL values in its columns, the instance that
  a handler works on has JavaScript values in its attributes: the records are the same
  but for the type of these.
\<close>

record 'v order =
  id' :: number
  userId :: 'v
  bookId :: 'v
  dateCommande :: number
  status :: string
  createdAt :: number
  updatedAt :: number

record 'v book =
  book_id :: number
  title :: 'v
  author :: 'v
  year :: 'v
  book_createdAt :: number
  book_updatedAt :: number

record user =
  user_id :: number
  email :: string
  password :: string
  name :: string
  user_createdAt :: number
  user_updatedAt :: number

definition order_instance :: "sql_value order \<Rightarrow> jsval order" where
  "order_instance row =
     \<lparr>id' = id' row, userId = js_of_sql (userId row), bookId = js_of_sql (bookId row),
      dateCommande = dateCommande row, status = status row,
      createdAt = createdAt row, updatedAt = updatedAt row\<rparr>"

definition book_instance :: "sql_value book \<Rightarrow> jsval book" where
  "book_instance row =
     \<lparr>book_id = book_id row, title = js_of_sql (title row), author = js_of_sql (author row),
      year = js_of_sql (year row),
      book_createdAt = book_createdAt row, book_updatedAt = book_updatedAt row\<rparr>"

section \<open>The outside world of a request\<close>

text \<open>
  What \<open>axios.get(url)\<close> settles to: resolved with a status and the parsed payload
  \<open>response.data\<close>, or rejected with an error whose \<open>response\<close> holds the status and payload
  of a reply outside 2xx, or no \<open>response\<close> at all (network error).
\<close>

datatype axios_result =
    Resolved nat jsval
  | Rejected "(nat \<times> jsval) option"

text \<open>
  An exception: its \<open>name\<close>, its \<open>message\<close> and (for a validation error of Sequelize) its
  \<open>errors\<close>. \<open>TypeError\<close> is the one that the language throws for a property read on
  \<open>null\<close> or \<open>undefined\<close> and for a conversion to a string that fails.
\<close>

datatype js_error = JsError string string jsval

fun error_name :: "js_error \<Rightarrow> string" where
  "error_name (JsError n m es) = n"

fun error_message :: "js_error \<Rightarrow> string" where
  "error_message (JsError n m es) = m"

fun error_errors :: "js_error \<Rightarrow> jsval" where
  "error_errors (JsError n m es) = es"

definition TypeError :: js_error where
  "TypeError = JsError ''TypeError'' ''Cannot convert object to primitive value'' JUndefined"

datatype db_op =
    OrderCreate | OrderFindAll | OrderFindByPk
  | BookFindByPk | BookSave
  | UserFindOne

text \<open>
  The environment of one request:
  \<^item> \<open>http\<close>, the outcome of a GET of each URL;
  \<^item> \<open>now\<close>, the clock read by \<open>new Date()\<close>, and \<open>db_now\<close>, the clock with which the
    datastore stamps \<open>createdAt\<close> and \<open>updatedAt\<close>;
  \<^item> \<open>db_error\<close>, the exception (if any) that a datastore operation throws;
  \<^item> \<open>bcrypt_compare\<close>, the outcome of \<open>bcrypt.compare\<close> on two strings (\<open>Inl\<close> when it
    throws);
  \<^item> \<open>integer_column\<close> and \<open>text_column\<close>, what a column declared INTEGER, or STRING, holds
    after a value is written to it, for the values for which the model leaves this to
    the engine;
  \<^item> \<open>where_email\<close>, the row that a query \<open>where: { email }\<close> finds for a value of
    \<open>email\<close> that is not a string (Sequelize reads an array or an object as a
    condition), where the model leaves this to the engine;
  \<^item> \<open>string_violation\<close>, the \<open>message\<close> and the \<open>errors\<close> of the validation error that
    Sequelize raises for a book whose \<open>title\<close> or \<open>author\<close> is an array or an object.
\<close>

record env =
  http :: "string \<Rightarrow> axios_result"
  now :: number
  db_now :: number
  db_error :: "db_op \<Rightarrow> js_error option"
  bcrypt_compare :: "string \<Rightarrow> string \<Rightarrow> js_error + bool"
  integer_column :: "jsval \<Rightarrow> sql_value"
  text_column :: "jsval \<Rightarrow> sql_value"
  where_email :: "jsval \<Rightarrow> user list \<Rightarrow> user option"
  string_violation :: "jsval book \<Rightarrow> string \<times> jsval"

subsection \<open>Writing to a column\<close>

text \<open>
  The text of a decimal integer: digits, after one optional minus sign.
\<close>

definition is_decimal_digit :: "char \<Rightarrow> bool" where
  "is_decimal_digit c = (48 \<le> (of_char c :: nat) \<and> (of_char c :: nat) \<le> 57)"

definition integer_literal :: "string \<Rightarrow> int option" where
  "integer_literal str =
     (let negative = (str \<noteq> [] \<and> hd str = CHR ''-'');
          ds = (if negative then tl str else str)
      in if ds \<noteq> [] \<and> list_all is_decimal_digit ds
         then Some ((if negative then - 1 else 1) * int (digits_value 10 ds))
         else None)"

text \<open>
  A column declared INTEGER has the integer affinity of SQLite: an integer is stored as
  it is, and so is NULL; a text that is a decimal integer within the numbers of the
  model is stored as that integer. What the column holds for any other value is the
  engine's affair. A column declared STRING has the text affinity: a text is stored as
  it is.
\<close>

definition integer_affinity :: "env \<Rightarrow> jsval \<Rightarrow> sql_value" where
  "integer_affinity env v =
     (case v of
        JNum n \<Rightarrow> SqlInteger n
      | JNull \<Rightarrow> SqlNull
      | JStr str \<Rightarrow>
          (case integer_literal str of
             Some i \<Rightarrow> if - (2 ^ 53) \<le> i \<and> i < 2 ^ 53 then SqlInteger (of_int i)
                       else integer_column env v
           | None \<Rightarrow> integer_column env v)
      | _ \<Rightarrow> integer_column env v)"

definition text_affinity :: "env \<Rightarrow> jsval \<Rightarrow> sql_value" where
  "text_affinity env v =
     (case v of
        JStr str \<Rightarrow> SqlText str
      | JNull \<Rightarrow> SqlNull
      | _ \<Rightarrow> text_column env v)"

section \<open>Responses\<close>

text \<open>
  \<open>JSON.stringify\<close>, as \<open>res.json\<close> applies it: a member of an object whose value is
  \<open>undefined\<close> is left out, an \<open>undefined\<close> element of an array becomes \<open>null\<close>.
\<close>

fun to_json :: "jsval \<Rightarrow> jsval" where
  "to_json (JObj kvs) =
     JObj (map (\<lambda>(k, v). (k, to_json v)) (filter (\<lambda>(k, v). \<not> is_undefined v) kvs))"
| "to_json (JArr xs) = JArr (map (\<lambda>x. if is_undefined x then JNull else to_json x) xs)"
| "to_json v = v"

datatype body = Text string | Json jsval

record response =
  statusCode :: nat
  body :: body

text \<open>\<open>res.status(c).send(text)\<close> and \<open>res.status(c).json(v)\<close>.\<close>

definition send :: "nat \<Rightarrow> string \<Rightarrow> response" where
  "send c text = \<lparr>statusCode = c, body = Text text\<rparr>"

definition json :: "nat \<Rightarrow> jsval \<Rightarrow> response" where
  "json c v = \<lparr>statusCode = c, body = Json (to_json v)\<rparr>"

text \<open>The bytes of the accented letters of the messages (UTF-8).\<close>

definition e_acute :: string where
  "e_acute = [CHR 0xC3, CHR 0xA9]"

definition e_circ :: string where
  "e_circ = [CHR 0xC3, CHR 0xAA]"

definition a_grave :: string where
  "a_grave = [CHR 0xC3, CHR 0xA0]"

definition apostrophe :: string where
  "apostrophe = [CHR 0x27]"

text \<open>\<open>s.includes(p)\<close>.\<close>

fun str_includes :: "string \<Rightarrow> string \<Rightarrow> bool" where
  "str_includes [] p = (p = [])"
| "str_includes (c # cs) p = (starts_with (c # cs) p \<or> str_includes cs p)"

section \<open>Service Commandes\<close>

definition LIVRES_SERVICE_URL :: string where
  "LIVRES_SERVICE_URL = ''http://localhost:3001''"

definition UTILISATEURS_SERVICE_URL :: string where
  "UTILISATEURS_SERVICE_URL = ''http://localhost:3003''"

text \<open>
  The state of the service: the rows of the Orders table, the last identifier the
  table's auto-increment gave out, and the URLs of the outbound requests issued so far,
  in the order of issue.
\<close>

record sys =
  orders :: "sql_value order list"
  last_id :: number
  calls :: "string list"

text \<open>\<open>order.get({ plain: true })\<close>.\<close>

definition order_members :: "jsval order \<Rightarrow> (string \<times> jsval) list" where
  "order_members order =
     [(''id'', JNum (id' order)),
      (''userId'', userId order),
      (''bookId'', bookId order),
      (''dateCommande'', JNum (dateCommande order)),
      (''status'', JStr (status order)),
      (''createdAt'', JNum (createdAt order)),
      (''updatedAt'', JNum (updatedAt order))]"

text \<open>
  The datastore calls of Sequelize on the Orders table. \<open>create\<close> gives back the instance
  with the values it was given, and the table gets the row that its columns make of
  them (\<open>userId\<close> and \<open>bookId\<close> are declared INTEGER). A call that throws leaves the table
  as it was (one INSERT per create).
\<close>

definition Order_create ::
    "env \<Rightarrow> jsval \<Rightarrow> jsval \<Rightarrow> number \<Rightarrow> string \<Rightarrow> sys \<Rightarrow> (js_error + jsval order) \<times> sys" where
  "Order_create env uid bid date st s =
     (case db_error env OrderCreate of
        Some e \<Rightarrow> (Inl e, s)
      | None \<Rightarrow>
          let newOrder = \<lparr>id' = last_id s + 1, userId = uid, bookId = bid,
                           dateCommande = date, status = st,
                           createdAt = db_now env, updatedAt = db_now env\<rparr>;
              row = \<lparr>id' = last_id s + 1, userId = integer_affinity env uid,
                     bookId = integer_affinity env bid,
                     dateCommande = date, status = st,
                     createdAt = db_now env, updatedAt = db_now env\<rparr>
          in (Inr newOrder, s\<lparr>orders := orders s @ [row], last_id := last_id s + 1\<rparr>))"

definition Order_findAll :: "env \<Rightarrow> sys \<Rightarrow> js_error + sql_value order list" where
  "Order_findAll env s =
     (case db_error env OrderFindAll of Some e \<Rightarrow> Inl e | None \<Rightarrow> Inr (orders s))"

definition Order_findByPk :: "env \<Rightarrow> int \<Rightarrow> sys \<Rightarrow> js_error + sql_value order option" where
  "Order_findByPk env pk s =
     (case db_error env OrderFindByPk of
        Some e \<Rightarrow> Inl e
      | None \<Rightarrow> Inr (find (\<lambda>order. sint (id' order) = pk) (orders s)))"

text \<open>\<open>axios.get(url)\<close>: the request is recorded, the environment gives its outcome.\<close>

definition axios_get :: "env \<Rightarrow> string \<Rightarrow> sys \<Rightarrow> axios_result \<times> sys" where
  "axios_get env url s = (http env url, s\<lparr>calls := calls s @ [url]\<rparr>)"

definition user_url :: "jsval \<Rightarrow> string" where
  "user_url uid = UTILISATEURS_SERVICE_URL @ ''/users/'' @ to_string uid"

definition book_url :: "jsval \<Rightarrow> string" where
  "book_url bid = LIVRES_SERVICE_URL @ ''/livres/'' @ to_string bid"

subsection \<open>POST /commandes\<close>

text \<open>
  How an inner \<open>try\<close> of the handler ends: the handler goes on, or it returns a response
  from the \<open>catch\<close>, or an exception leaves the \<open>catch\<close> for the outer one.
\<close>

datatype step = Proceed | Respond response | Throw js_error

text \<open>
  Step 1, the inner \<open>try\<close> around the call of Service Utilisateurs. The URL interpolates
  \<open>userId\<close>; when that throws, no request is issued, and the \<open>catch\<close>, whose log line
  interpolates \<open>userId\<close> again, throws in its turn.
\<close>

definition verify_user :: "env \<Rightarrow> jsval \<Rightarrow> sys \<Rightarrow> step \<times> sys" where
  "verify_user env uid s =
     (if to_string_throws uid then (Throw TypeError, s)
      else
        (case axios_get env (user_url uid) s of
           (Resolved st d, s1) \<Rightarrow> (Proceed, s1)
         | (Rejected r, s1) \<Rightarrow>
             (case r of
                Some (st, d) \<Rightarrow>
                  if st = 404
                  then (Respond (send 404 (''Utilisateur avec ID '' @ to_string uid
                                            @ '' non trouv'' @ e_acute @ ''.'')), s1)
                  else (Respond (send 500 (''Erreur lors de la v'' @ e_acute
                                            @ ''rification de l'' @ apostrophe
                                            @ ''utilisateur.'')), s1)
              | None \<Rightarrow>
                  (Respond (send 500 (''Erreur lors de la v'' @ e_acute
                                       @ ''rification de l'' @ apostrophe
                                       @ ''utilisateur.'')), s1))))"

text \<open>
  Step 2, the inner \<open>try\<close> around the call of Service Livres, the same for \<open>bookId\<close>. The
  \<open>try\<close> also interpolates \<open>bookDetails.title\<close> in its log line: on a payload that is
  \<open>null\<close> or \<open>undefined\<close> the read throws a TypeError, on a title whose conversion to a
  string throws the interpolation does, and the same \<open>catch\<close> receives it, with no
  \<open>response\<close>.
\<close>

definition verify_book :: "env \<Rightarrow> jsval \<Rightarrow> sys \<Rightarrow> step \<times> sys" where
  "verify_book env bid s =
     (if to_string_throws bid then (Throw TypeError, s)
      else
        (case axios_get env (book_url bid) s of
           (Resolved st bookDetails, s1) \<Rightarrow>
             if is_nullish bookDetails \<or> to_string_throws (get_prop bookDetails ''title'')
             then (Respond (send 500 (''Erreur lors de la v'' @ e_acute
                                       @ ''rification du livre.'')), s1)
             else (Proceed, s1)
         | (Rejected r, s1) \<Rightarrow>
             (case r of
                Some (st, d) \<Rightarrow>
                  if st = 404
                  then (Respond (send 404 (''Livre avec ID '' @ to_string bid
                                            @ '' non trouv'' @ e_acute @ ''.'')), s1)
                  else (Respond (send 500 (''Erreur lors de la v'' @ e_acute
                                            @ ''rification du livre.'')), s1)
              | None \<Rightarrow>
                  (Respond (send 500 (''Erreur lors de la v'' @ e_acute
                                       @ ''rification du livre.'')), s1))))"

text \<open>The outer \<open>catch\<close> of the handler.\<close>

definition post_commandes_catch :: "js_error \<Rightarrow> response" where
  "post_commandes_catch error =
     (if error_name error \<noteq> [] \<and> str_includes (error_name error) ''Sequelize''
      then send 500 (''Erreur base de donn'' @ e_acute @ ''es lors de la cr''
                      @ e_acute @ ''ation de la commande.'')
      else send 500 (''Erreur serveur interne lors de la cr'' @ e_acute
                      @ ''ation de la commande.''))"

text \<open>
  The handler. The body is the member list of the object that \<open>express.json()\<close> parsed
  (an empty list when the request has none).
\<close>

definition post_commandes :: "env \<Rightarrow> (string \<times> jsval) list \<Rightarrow> sys \<Rightarrow> response \<times> sys" where
  "post_commandes env req_body s =
     (let uid = get_prop (JObj req_body) ''userId'';
          bid = get_prop (JObj req_body) ''bookId''
      in if \<not> truthy uid \<or> \<not> truthy bid
         then (send 400 ''userId et bookId sont requis'', s)
         else
           (case verify_user env uid s of
              (Respond r, s1) \<Rightarrow> (r, s1)
            | (Throw error, s1) \<Rightarrow> (post_commandes_catch error, s1)
            | (Proceed, s1) \<Rightarrow>
                (case verify_book env bid s1 of
                   (Respond r, s2) \<Rightarrow> (r, s2)
                 | (Throw error, s2) \<Rightarrow> (post_commandes_catch error, s2)
                 | (Proceed, s2) \<Rightarrow>
                     (case Order_create env uid bid (now env) ''En cours'' s2 of
                        (Inr newOrder, s3) \<Rightarrow> (json 201 (JObj (order_members newOrder)), s3)
                      | (Inl error, s3) \<Rightarrow> (post_commandes_catch error, s3)))))"

subsection \<open>GET /commandes and GET /commandes/:id\<close>

text \<open>
  \<open>axios.get(...).catch(err => null)\<close> followed by \<open>response?.data\<close>: the payload of a
  resolved request, \<open>undefined\<close> for a rejected one.
\<close>

definition catch_null :: "axios_result \<Rightarrow> jsval option" where
  "catch_null r = (case r of Resolved st d \<Rightarrow> Some d | Rejected e \<Rightarrow> None)"

definition opt_data :: "jsval option \<Rightarrow> jsval" where
  "opt_data r = (case r of Some d \<Rightarrow> d | None \<Rightarrow> JUndefined)"

text \<open>
  The enrichment of one order of the table, the same in both handlers. Both requests
  are issued before either is awaited (\<open>Promise.all\<close>). Nothing in the inner \<open>try\<close> can
  throw: each request has its own \<open>catch\<close>, and the identifiers that the URLs interpolate
  come from columns, so they are numbers, texts or \<open>null\<close>. The \<open>catch (fetchError)\<close>
  has no branch here.
\<close>

definition enrich :: "env \<Rightarrow> sql_value order \<Rightarrow> sys \<Rightarrow> jsval \<times> sys" where
  "enrich env row s =
     (let order = order_instance row;
          (u, s1) = axios_get env (user_url (userId order)) s;
          (b, s2) = axios_get env (book_url (bookId order)) s1;
          userResponse = catch_null u;
          bookResponse = catch_null b;
          userName = (if truthy (opt_data userResponse)
                      then get_prop (opt_data userResponse) ''name''
                      else JStr ''Utilisateur inconnu'');
          bookTitle = (if truthy (opt_data bookResponse)
                       then get_prop (opt_data bookResponse) ''title''
                       else JStr ''Livre inconnu'')
      in (JObj (order_members order @ [(''userName'', userName), (''bookTitle'', bookTitle)]), s2))"

fun enrich_all :: "env \<Rightarrow> sql_value order list \<Rightarrow> sys \<Rightarrow> jsval list \<times> sys" where
  "enrich_all env [] s = ([], s)"
| "enrich_all env (row # rest) s =
     (let (d, s1) = enrich env row s;
          (ds, s2) = enrich_all env rest s1
      in (d # ds, s2))"

definition get_commandes :: "env \<Rightarrow> sys \<Rightarrow> response \<times> sys" where
  "get_commandes env s =
     (case Order_findAll env s of
        Inl error \<Rightarrow>
          (send 500 (''Erreur serveur lors de la r'' @ e_acute @ ''cup'' @ e_acute
                      @ ''ration des commandes.''), s)
      | Inr found \<Rightarrow>
          let (enrichedOrders, s1) = enrich_all env found s
          in (json 200 (JArr enrichedOrders), s1))"

text \<open>
  The handler of one order; \<open>param_id\<close> is \<open>req.params.id\<close>. An exception of the datastore
  carries no \<open>response\<close>, so the outer \<open>catch\<close> answers 500 with its default message.
\<close>

definition get_commande :: "env \<Rightarrow> string \<Rightarrow> sys \<Rightarrow> response \<times> sys" where
  "get_commande env param_id s =
     (case parseInt param_id 10 of
        None \<Rightarrow> (send 400 ''ID de commande invalide.'', s)
      | Some orderId \<Rightarrow>
          (case Order_findByPk env orderId s of
             Inl error \<Rightarrow>
               (send 500 (''Erreur serveur lors de la r'' @ e_acute @ ''cup'' @ e_acute
                           @ ''ration de la commande.''), s)
           | Inr None \<Rightarrow> (send 404 (''Commande non trouv'' @ e_acute @ ''e''), s)
           | Inr (Some row) \<Rightarrow>
               let (enrichedOrder, s1) = enrich env row s
               in (json 200 enrichedOrder, s1)))"

section \<open>Service Livres\<close>

definition book_members :: "jsval book \<Rightarrow> (string \<times> jsval) list" where
  "book_members book =
     [(''id'', JNum (book_id book)),
      (''title'', title book),
      (''author'', author book),
      (''year'', year book),
      (''createdAt'', JNum (book_createdAt book)),
      (''updatedAt'', JNum (book_updatedAt book))]"

text \<open>
  The datastore calls of Sequelize on the Books table. \<open>findByPk\<close> receives what
  \<open>parseInt\<close> gave; with NaN the query is one that SQLite refuses, and the call throws.
  \<open>save\<close> first validates the changed attributes: an attribute declared STRING
  (\<open>title\<close>, \<open>author\<close>) that holds an array or an object is a validation error, thrown
  before any query. It then stamps \<open>updatedAt\<close> on an instance that has a changed
  attribute and writes the changed attributes to the row of its key, each through its
  column (\<open>year\<close> is declared INTEGER); the instance keeps the values it was given. A
  \<open>save\<close> that throws leaves the table as it was.
\<close>

fun is_structured :: "jsval \<Rightarrow> bool" where
  "is_structured (JArr xs) = True"
| "is_structured (JObj kvs) = True"
| "is_structured v = False"

definition Book_findByPk ::
    "env \<Rightarrow> int option \<Rightarrow> sql_value book list \<Rightarrow> js_error + sql_value book option" where
  "Book_findByPk env pk books =
     (case db_error env BookFindByPk of
        Some e \<Rightarrow> Inl e
      | None \<Rightarrow>
          (case pk of
             None \<Rightarrow> Inl (JsError ''SequelizeDatabaseError''
                            ''SQLITE_ERROR: no such column: NaN'' JUndefined)
           | Some n \<Rightarrow> Inr (find (\<lambda>b. sint (book_id b) = n) books)))"

definition Book_save ::
    "env \<Rightarrow> sql_value book \<Rightarrow> jsval book \<Rightarrow> sql_value book list
       \<Rightarrow> js_error + jsval book \<times> sql_value book list" where
  "Book_save env row book books =
     (if is_structured (title book) \<or> is_structured (author book)
      then Inl (JsError ''SequelizeValidationError'' (fst (string_violation env book))
                  (snd (string_violation env book)))
      else
      case db_error env BookSave of
        Some e \<Rightarrow> Inl e
      | None \<Rightarrow>
          let saved = (if book = book_instance row then book
                       else book\<lparr>book_updatedAt := db_now env\<rparr>);
              written =
                row\<lparr>title := (if title book = js_of_sql (title row) then title row
                               else text_affinity env (title book)),
                    author := (if author book = js_of_sql (author row) then author row
                               else text_affinity env (author book)),
                    year := (if year book = js_of_sql (year row) then year row
                             else integer_affinity env (year book)),
                    book_updatedAt := book_updatedAt saved\<rparr>
          in Inr (saved, map (\<lambda>b. if book_id b = book_id row then written else b) books))"

subsection \<open>PUT /livres/:id\<close>

text \<open>The \<open>catch\<close> of the handler.\<close>

definition put_livre_catch :: "js_error \<Rightarrow> response" where
  "put_livre_catch error =
     (if error_name error = ''SequelizeValidationError''
      then json 400 (JObj [(''error'', JStr (error_message error)),
                           (''details'', error_errors error)])
      else send 500 (''Erreur serveur lors de la mise '' @ a_grave @ '' jour du livre''))"

text \<open>
  The handler; \<open>param_id\<close> is \<open>req.params.id\<close>, parsed by \<open>parseInt\<close> with no radix.
\<close>

definition put_livre ::
    "env \<Rightarrow> string \<Rightarrow> (string \<times> jsval) list \<Rightarrow> sql_value book list
       \<Rightarrow> response \<times> sql_value book list" where
  "put_livre env param_id req_body books =
     (case Book_findByPk env (parseInt param_id 0) books of
        Inl error \<Rightarrow> (put_livre_catch error, books)
      | Inr None \<Rightarrow> (send 404 (''Livre non trouv'' @ e_acute), books)
      | Inr (Some row) \<Rightarrow>
          let book = book_instance row;
              title' = get_prop (JObj req_body) ''title'';
              author' = get_prop (JObj req_body) ''author'';
              year' = get_prop (JObj req_body) ''year''
          in if \<not> truthy title' \<and> \<not> truthy author' \<and> is_undefined year'
             then (send 400 (''Au moins un champ (titre, auteur, ann'' @ e_acute
                              @ ''e) doit '' @ e_circ @ ''tre fourni pour la mise ''
                              @ a_grave @ '' jour''), books)
             else
               let book1 = (if truthy title' then book\<lparr>title := title'\<rparr> else book);
                   book2 = (if truthy author' then book1\<lparr>author := author'\<rparr> else book1);
                   book3 = (if \<not> is_undefined year' then book2\<lparr>year := year'\<rparr> else book2)
               in (case Book_save env row book3 books of
                     Inl error \<Rightarrow> (put_livre_catch error, books)
                   | Inr (saved, books') \<Rightarrow> (json 200 (JObj (book_members saved)), books')))"

section \<open>Service Utilisateurs\<close>

definition user_members :: "user \<Rightarrow> (string \<times> jsval) list" where
  "user_members user =
     [(''id'', JNum (user_id user)),
      (''email'', JStr (email user)),
      (''password'', JStr (password user)),
      (''name'', JStr (name user)),
      (''createdAt'', JNum (user_createdAt user)),
      (''updatedAt'', JNum (user_updatedAt user))]"

text \<open>\<open>const { password: _, ...userWithoutPassword } = user.get({ plain: true })\<close>.\<close>

definition userWithoutPassword :: "user \<Rightarrow> (string \<times> jsval) list" where
  "userWithoutPassword user = filter (\<lambda>(k, v). k \<noteq> ''password'') (user_members user)"

text \<open>
  \<open>User.findOne({ where: { email } })\<close>: for a string, the row with that email (the
  column is unique); for an array of strings, which Sequelize reads as
  \<open>email IN (...)\<close>, a row whose email is one of them, the one that the environment
  names when several are; for any other value, the row of the table that the
  environment names, if any.
\<close>

fun is_string :: "jsval \<Rightarrow> bool" where
  "is_string (JStr s) = True"
| "is_string v = False"

definition User_findOne :: "env \<Rightarrow> jsval \<Rightarrow> user list \<Rightarrow> js_error + user option" where
  "User_findOne env email' users =
     (case db_error env UserFindOne of
        Some e \<Rightarrow> Inl e
      | None \<Rightarrow>
          (case email' of
             JStr str \<Rightarrow> Inr (find (\<lambda>u. email u = str) users)
           | JArr xs \<Rightarrow>
               if list_all is_string xs
               then (case where_email env email' users of
                       Some u \<Rightarrow>
                         if u \<in> set users \<and> JStr (email u) \<in> set xs then Inr (Some u)
                         else Inr (find (\<lambda>u. JStr (email u) \<in> set xs) users)
                     | None \<Rightarrow> Inr (find (\<lambda>u. JStr (email u) \<in> set xs) users))
               else (case where_email env email' users of
                       Some u \<Rightarrow> if u \<in> set users then Inr (Some u) else Inr None
                     | None \<Rightarrow> Inr None)
           | _ \<Rightarrow>
               (case where_email env email' users of
                  Some u \<Rightarrow> if u \<in> set users then Inr (Some u) else Inr None
                | None \<Rightarrow> Inr None)))"

text \<open>
  \<open>bcrypt.compare(data, hash)\<close>: the library rejects a \<open>data\<close> that is not a string
  (\<open>data and hash must be strings\<close>) before it compares anything.
\<close>

definition compare :: "env \<Rightarrow> jsval \<Rightarrow> string \<Rightarrow> js_error + bool" where
  "compare env data hash =
     (case data of
        JStr str \<Rightarrow> bcrypt_compare env str hash
      | _ \<Rightarrow> Inl (JsError ''Error'' ''data and hash must be strings'' JUndefined))"

subsection \<open>POST /login\<close>

definition post_login :: "env \<Rightarrow> (string \<times> jsval) list \<Rightarrow> user list \<Rightarrow> response" where
  "post_login env req_body users =
     (let email' = get_prop (JObj req_body) ''email'';
          password' = get_prop (JObj req_body) ''password''
      in if \<not> truthy email' \<or> \<not> truthy password'
         then send 400 ''Email et mot de passe sont requis''
         else
           (case User_findOne env email' users of
              Inl error \<Rightarrow> send 500 ''Erreur serveur lors de la connexion.''
            | Inr None \<Rightarrow> send 401 ''Email ou mot de passe invalide''
            | Inr (Some user) \<Rightarrow>
                (case compare env password' (password user) of
                   Inl error \<Rightarrow> send 500 ''Erreur serveur lors de la connexion.''
                 | Inr isPasswordValid \<Rightarrow>
                     if isPasswordValid
                     then json 200 (JObj [(''message'', JStr (''Connexion r'' @ e_acute @ ''ussie'')),
                                          (''user'', JObj (userWithoutPassword user))])
                     else send 401 ''Email ou mot de passe invalide'')))"

section \<open>Vocabulary of the properties\<close>

text \<open>A request that \<open>axios\<close> resolved (a reply with a 2xx status).\<close>

fun is_resolved :: "axios_result \<Rightarrow> bool" where
  "is_resolved (Resolved st d) = True"
| "is_resolved (Rejected r) = False"

text \<open>The outbound requests issued between the state \<open>s\<close> and the later state \<open>s'\<close>.\<close>

definition issued :: "sys \<Rightarrow> sys \<Rightarrow> string list" where
  "issued s s' = drop (length (calls s)) (calls s')"

text \<open>
  The object \<open>{ ...order.get({ plain: true }), userName, bookTitle }\<close> for given values
  of the two enrichment fields.
\<close>

definition enriched :: "jsval order \<Rightarrow> jsval \<Rightarrow> jsval \<Rightarrow> jsval" where
  "enriched order un bt = JObj (order_members order @ [(''userName'', un), (''bookTitle'', bt)])"

text \<open>
  PUT /livres/:id in three steps: the instance after the three conditional assignments,
  for the values \<open>t\<close>, \<open>a\<close> and \<open>y\<close> read from the body; the instance that \<open>save\<close>
  gives back; the row that \<open>save\<close> leaves in the table.
\<close>

definition assigned :: "jsval book \<Rightarrow> jsval \<Rightarrow> jsval \<Rightarrow> jsval \<Rightarrow> jsval book" where
  "assigned book t a y =
     (let book1 = (if truthy t then book\<lparr>title := t\<rparr> else book);
          book2 = (if truthy a then book1\<lparr>author := a\<rparr> else book1)
      in if \<not> is_undefined y then book2\<lparr>year := y\<rparr> else book2)"

definition stamped :: "env \<Rightarrow> sql_value book \<Rightarrow> jsval book \<Rightarrow> jsval book" where
  "stamped env row book =
     (if book = book_instance row then book else book\<lparr>book_updatedAt := db_now env\<rparr>)"

definition written :: "env \<Rightarrow> sql_value book \<Rightarrow> jsval book \<Rightarrow> sql_value book" where
  "written env row book =
     row\<lparr>title := (if title book = js_of_sql (title row) then title row
                    else text_affinity env (title book)),
         author := (if author book = js_of_sql (author row) then author row
                    else text_affinity env (author book)),
         year := (if year book = js_of_sql (year row) then year row
                  else integer_affinity env (year book)),
         book_updatedAt := book_updatedAt (stamped env row book)\<rparr>"



section \<open>Concrete requests\<close>

text \<open>
  A small world for the examples: user 1 and book 2 exist, every other identifier gets
  a 404 from its service. The engine stores a value it is left with as NULL and names
  no row for a query it is left with, and the password check compares the stored text
  itself. \<open>env_down\<close> is the same world with both services unreachable,
  \<open>env_catalog_down\<close> the one where Service Livres answers every request 503;
  in \<open>env_nameless\<close> the user payload has no \<open>name\<close> and the book payload no \<open>title\<close>;
  in \<open>env_falsy\<close> the user service answers 200 with the payload \<open>0\<close> and the book
  service 200 with the payload \<open>false\<close>.
\<close>

definition payload_user :: jsval where
  "payload_user = JObj [(''id'', JNum 1), (''email'', JStr ''ada@example.org''),
                        (''name'', JStr ''Ada'')]"

definition payload_book :: jsval where
  "payload_book = JObj [(''id'', JNum 2), (''title'', JStr ''Emma''),
                        (''author'', JStr ''Jane Austen''), (''year'', JNum 1815)]"

definition env_live :: env where
  "env_live =
     \<lparr>http = (\<lambda>url. if url = ''http://localhost:3003/users/1'' then Resolved 200 payload_user
                    else if url = ''http://localhost:3001/livres/2'' then Resolved 200 payload_book
                    else Rejected (Some (404, JStr ''introuvable''))),
      now = 1000, db_now = 1001,
      db_error = (\<lambda>operation. None),
      bcrypt_compare = (\<lambda>data hash. Inr (data = hash)),
      integer_column = (\<lambda>v. SqlNull),
      text_column = (\<lambda>v. SqlNull),
      where_email = (\<lambda>v users. None),
      string_violation = (\<lambda>book. (''string violation'', JArr []))\<rparr>"

definition env_down :: env where
  "env_down = env_live\<lparr>http := (\<lambda>url. Rejected None)\<rparr>"

definition env_catalog_down :: env where
  "env_catalog_down =
     env_live\<lparr>http := (\<lambda>url. if url = ''http://localhost:3003/users/1''
                              then Resolved 200 payload_user
                              else Rejected (Some (503, JStr ''indisponible'')))\<rparr>"

definition env_nameless :: env where
  "env_nameless =
     env_live\<lparr>http := (\<lambda>url. if url = ''http://localhost:3003/users/1''
                              then Resolved 200 (JObj [(''id'', JNum 1)])
                              else if url = ''http://localhost:3001/livres/2''
                              then Resolved 200 (JObj [(''id'', JNum 2)])
                              else Rejected (Some (404, JStr ''introuvable'')))\<rparr>"

definition env_falsy :: env where
  "env_falsy =
     env_live\<lparr>http := (\<lambda>url. if url = ''http://localhost:3003/users/1''
                              then Resolved 200 (JNum 0)
                              else if url = ''http://localhost:3001/livres/2''
                              then Resolved 200 (JBool False)
                              else Rejected (Some (404, JStr ''introuvable'')))\<rparr>"

definition order_one :: "sql_value order" where
  "order_one = \<lparr>id' = 1, userId = SqlInteger 1, bookId = SqlInteger 2, dateCommande = 900,
                status = ''En cours'', createdAt = 900, updatedAt = 900\<rparr>"

text \<open>An order whose user (7) has been deleted since.\<close>

definition order_orphan :: "sql_value order" where
  "order_orphan = \<lparr>id' = 12, userId = SqlInteger 7, bookId = SqlInteger 2, dateCommande = 950,
                   status = ''En cours'', createdAt = 950, updatedAt = 950\<rparr>"

definition s_two :: sys where
  "s_two = \<lparr>orders = [order_one, order_orphan], last_id = 12, calls = []\<rparr>"

definition req_valid :: "(string \<times> jsval) list" where
  "req_valid = [(''userId'', JNum 1), (''bookId'', JNum 2)]"

text \<open>The same identifiers, sent as strings.\<close>

definition req_valid_text :: "(string \<times> jsval) list" where
  "req_valid_text = [(''userId'', JStr ''1''), (''bookId'', JStr ''2'')]"

definition req_unknown_user :: "(string \<times> jsval) list" where
  "req_unknown_user = [(''userId'', JNum 7), (''bookId'', JNum 2)]"

definition req_unknown_book :: "(string \<times> jsval) list" where
  "req_unknown_book = [(''userId'', JNum 1), (''bookId'', JNum 9)]"

definition req_user_zero :: "(string \<times> jsval) list" where
  "req_user_zero = [(''userId'', JNum 0), (''bookId'', JNum 2)]"

definition req_no_book :: "(string \<times> jsval) list" where
  "req_no_book = [(''userId'', JNum 1)]"

definition book_emma :: "sql_value book" where
  "book_emma = \<lparr>book_id = 2, title = SqlText ''Emma'', author = SqlText ''Jane Austen'',
                year = SqlInteger 1815, book_createdAt = 800, book_updatedAt = 800\<rparr>"

definition req_year_only :: "(string \<times> jsval) list" where
  "req_year_only = [(''year'', JNum 1816)]"

definition req_year_text :: "(string \<times> jsval) list" where
  "req_year_text = [(''year'', JStr ''1816'')]"

definition req_title_only :: "(string \<times> jsval) list" where
  "req_title_only = [(''title'', JStr ''Emma, a novel'')]"

definition req_title_list :: "(string \<times> jsval) list" where
  "req_title_list = [(''title'', JArr [JStr ''Emma'']), (''year'', JNum 1816)]"

definition user_ada :: user where
  "user_ada = \<lparr>user_id = 1, email = ''ada@example.org'', password = ''s3cret'',
               name = ''Ada'', user_createdAt = 700, user_updatedAt = 700\<rparr>"

text \<open>
  Three login requests: one for the email of Ada with a password that is not hers, and
  two with the same password, the number 123, one for the email of Ada, one for an
  email nobody has.
\<close>

definition login_wrong_password :: "(string \<times> jsval) list" where
  "login_wrong_password = [(''email'', JStr ''ada@example.org''), (''password'', JStr ''guess'')]"

definition login_known_number :: "(string \<times> jsval) list" where
  "login_known_number = [(''email'', JStr ''ada@example.org''), (''password'', JNum 123)]"

definition login_unknown_number :: "(string \<times> jsval) list" where
  "login_unknown_number = [(''email'', JStr ''ghost@example.org''), (''password'', JNum 123)]"

text \<open>The email of Ada sent as an array of one string, with the same password.\<close>

definition login_array_email :: "(string \<times> jsval) list" where
  "login_array_email =
     [(''email'', JArr [JStr ''ada@example.org'']), (''password'', JNum 123)]"

section \<open>Auxiliary facts\<close>

subsection \<open>Values\<close>

lemma is_undefined_iff: "is_undefined v \<longleftrightarrow> v = JUndefined"
  by (cases v) (simp_all add: is_undefined_def)

lemma get_prop_absent: "k \<notin> fst ` set kvs \<Longrightarrow> get_prop (JObj kvs) k = JUndefined"
  by (simp add: get_prop_def map_of_eq_None_iff[THEN iffD2] split: option.splits)

lemma map_of_to_json_absent:
  "k \<notin> fst ` set kvs \<Longrightarrow>
     map_of (rev (map (\<lambda>(k, v). (k, to_json v)) (filter (\<lambda>(k, v). \<not> is_undefined v) kvs))) k = None"
  by (auto simp add: map_of_eq_None_iff image_iff)

lemma get_prop_to_json:
  "distinct (map fst kvs) \<Longrightarrow> get_prop (to_json (JObj kvs)) k = to_json (get_prop (JObj kvs) k)"
proof (induction kvs rule: rev_induct)
  case Nil
  show ?case by (simp add: get_prop_def)
next
  case (snoc x xs)
  obtain k' v where x: "x = (k', v)" by (cases x)
  have d: "distinct (map fst xs)" and notin: "k' \<notin> fst ` set xs"
    using snoc.prems x by auto
  have ih: "get_prop (to_json (JObj xs)) k = to_json (get_prop (JObj xs) k)"
    using snoc.IH d by simp
  show ?case
  proof (cases "k = k'")
    case True
    show ?thesis
    proof (cases "is_undefined v")
      case True
      then have "v = JUndefined" by (simp add: is_undefined_iff)
      then show ?thesis
        using \<open>k = k'\<close> map_of_to_json_absent [OF notin] x
        by (simp add: get_prop_def is_undefined_iff)
    next
      case False
      then show ?thesis
        using \<open>k = k'\<close> x by (simp add: get_prop_def)
    qed
  next
    case False
    then show ?thesis
      using ih x by (simp add: get_prop_def)
  qed
qed

lemma to_json_member:
  "to_json (JObj kvs) = JObj ms \<Longrightarrow> k \<in> fst ` set ms \<Longrightarrow> \<exists>v. (k, v) \<in> set kvs \<and> v \<noteq> JUndefined"
  by (auto simp add: is_undefined_iff)

lemma to_json_obj: "\<exists>ms. to_json (JObj kvs) = JObj ms"
  by simp

lemma to_json_sql: "to_json (js_of_sql v) = js_of_sql v"
  by (cases v) simp_all

lemma sql_not_undefined: "js_of_sql v \<noteq> JUndefined"
  by (cases v) simp_all

lemma sql_printable: "\<not> to_string_throws (js_of_sql v)"
  by (cases v) simp_all

lemma js_of_sql_inject: "js_of_sql v = js_of_sql w \<longleftrightarrow> v = w"
  by (cases v; cases w) simp_all

lemma send_status: "statusCode (send c t) = c"
  by (simp add: send_def)

lemma json_status: "statusCode (json c v) = c"
  by (simp add: json_def)

lemma catch_status: "statusCode (post_commandes_catch e) = 500"
  by (simp add: post_commandes_catch_def send_status)

subsection \<open>Columns\<close>

lemma integer_affinity_number: "integer_affinity env (JNum n) = SqlInteger n"
  by (simp add: integer_affinity_def)

lemma integer_affinity_null: "integer_affinity env JNull = SqlNull"
  by (simp add: integer_affinity_def)

lemma integer_affinity_roundtrip:
  "(\<exists>n. v = JNum n) \<or> v = JNull \<Longrightarrow> js_of_sql (integer_affinity env v) = v"
  by (auto simp add: integer_affinity_def)

lemma text_affinity_text: "text_affinity env (JStr str) = SqlText str"
  by (simp add: text_affinity_def)

subsection \<open>parseInt with radix 10\<close>










subsection \<open>POST /commandes\<close>

lemma verify_user_state:
  "snd (verify_user env uid s) =
     (if to_string_throws uid then s else s\<lparr>calls := calls s @ [user_url uid]\<rparr>)"
  by (simp add: verify_user_def axios_get_def split: axios_result.splits option.splits prod.splits)

lemma verify_book_state:
  "snd (verify_book env bid s) =
     (if to_string_throws bid then s else s\<lparr>calls := calls s @ [book_url bid]\<rparr>)"
  by (simp add: verify_book_def axios_get_def split: axios_result.splits option.splits prod.splits)

lemma verify_user_Proceed:
  "fst (verify_user env uid s) = Proceed \<longleftrightarrow>
     \<not> to_string_throws uid \<and> is_resolved (http env (user_url uid))"
  by (simp add: verify_user_def axios_get_def split: axios_result.splits option.splits prod.splits)

lemma verify_book_Proceed:
  "fst (verify_book env bid s) = Proceed \<longleftrightarrow>
     \<not> to_string_throws bid \<and>
     (\<exists>st d. http env (book_url bid) = Resolved st d \<and> \<not> is_nullish d
             \<and> \<not> to_string_throws (get_prop d ''title''))"
  by (simp add: verify_book_def axios_get_def split: axios_result.splits option.splits prod.splits)

lemma verify_user_Throw:
  "fst (verify_user env uid s) = Throw e \<longleftrightarrow> to_string_throws uid \<and> e = TypeError"
  by (auto simp add: verify_user_def axios_get_def split: axios_result.splits option.splits prod.splits)

lemma verify_book_Throw:
  "fst (verify_book env bid s) = Throw e \<longleftrightarrow> to_string_throws bid \<and> e = TypeError"
  by (auto simp add: verify_book_def axios_get_def split: axios_result.splits option.splits prod.splits)

lemma verify_user_Respond:
  "fst (verify_user env uid s) = Respond r \<Longrightarrow>
     \<not> to_string_throws uid \<and> (statusCode r = 404 \<or> statusCode r = 500)"
  by (auto simp add: verify_user_def axios_get_def send_def
      split: axios_result.splits option.splits prod.splits if_splits)

lemma verify_book_Respond:
  "fst (verify_book env bid s) = Respond r \<Longrightarrow>
     \<not> to_string_throws bid \<and> (statusCode r = 404 \<or> statusCode r = 500)"
  by (auto simp add: verify_book_def axios_get_def send_def
      split: axios_result.splits option.splits prod.splits if_splits)

lemma verify_book_fst_indep: "fst (verify_book env bid s) = fst (verify_book env bid t)"
  by (simp add: verify_book_def axios_get_def split: axios_result.splits option.splits prod.splits)

text \<open>The handler, with the two steps as pairs.\<close>

lemma post_commandes_unfold:
  "post_commandes env b s =
     (let uid = get_prop (JObj b) ''userId''; bid = get_prop (JObj b) ''bookId'' in
      if \<not> truthy uid \<or> \<not> truthy bid then (send 400 ''userId et bookId sont requis'', s)
      else case fst (verify_user env uid s) of
             Respond r \<Rightarrow> (r, s\<lparr>calls := calls s @ [user_url uid]\<rparr>)
           | Throw e \<Rightarrow> (post_commandes_catch e, s)
           | Proceed \<Rightarrow>
              (case fst (verify_book env bid s) of
                 Respond r \<Rightarrow> (r, s\<lparr>calls := calls s @ [user_url uid, book_url bid]\<rparr>)
               | Throw e \<Rightarrow> (post_commandes_catch e, s\<lparr>calls := calls s @ [user_url uid]\<rparr>)
               | Proceed \<Rightarrow>
                  (case db_error env OrderCreate of
                     Some e \<Rightarrow> (post_commandes_catch e,
                                s\<lparr>calls := calls s @ [user_url uid, book_url bid]\<rparr>)
                   | None \<Rightarrow>
                       (json 201 (JObj (order_members
                          \<lparr>id' = last_id s + 1, userId = uid, bookId = bid,
                           dateCommande = now env, status = ''En cours'',
                           createdAt = db_now env, updatedAt = db_now env\<rparr>)),
                        s\<lparr>calls := calls s @ [user_url uid, book_url bid],
                          orders := orders s @
                            [\<lparr>id' = last_id s + 1, userId = integer_affinity env uid,
                              bookId = integer_affinity env bid,
                              dateCommande = now env, status = ''En cours'',
                              createdAt = db_now env, updatedAt = db_now env\<rparr>],
                          last_id := last_id s + 1\<rparr>))))"
proof -
  let ?uid = "get_prop (JObj b) ''userId''"
  let ?bid = "get_prop (JObj b) ''bookId''"
  let ?s1 = "s\<lparr>calls := calls s @ [user_url ?uid]\<rparr>"
  have u: "verify_user env ?uid s = (fst (verify_user env ?uid s), snd (verify_user env ?uid s))"
    by simp
  have b: "verify_book env ?bid t = (fst (verify_book env ?bid s), snd (verify_book env ?bid t))" for t
    using verify_book_fst_indep [of env ?bid t s] by (metis prod.collapse)
  have ur: "fst (verify_user env ?uid s) = Respond r \<Longrightarrow> snd (verify_user env ?uid s) = ?s1" for r
    using verify_user_Respond [of env ?uid s r] by (simp add: verify_user_state)
  have ut: "fst (verify_user env ?uid s) = Throw e \<Longrightarrow> snd (verify_user env ?uid s) = s" for e
    by (simp add: verify_user_Throw verify_user_state)
  have up: "fst (verify_user env ?uid s) = Proceed \<Longrightarrow> snd (verify_user env ?uid s) = ?s1"
    by (simp add: verify_user_Proceed verify_user_state)
  have br: "fst (verify_book env ?bid s) = Respond r \<Longrightarrow>
      snd (verify_book env ?bid ?s1) = s\<lparr>calls := calls s @ [user_url ?uid, book_url ?bid]\<rparr>" for r
    using verify_book_Respond [of env ?bid s r] by (simp add: verify_book_state)
  have bt: "fst (verify_book env ?bid s) = Throw e \<Longrightarrow> snd (verify_book env ?bid ?s1) = ?s1" for e
    by (simp add: verify_book_Throw verify_book_state)
  have bp: "fst (verify_book env ?bid s) = Proceed \<Longrightarrow>
      snd (verify_book env ?bid ?s1) = s\<lparr>calls := calls s @ [user_url ?uid, book_url ?bid]\<rparr>"
    by (simp add: verify_book_Proceed verify_book_state)
  show ?thesis
  proof (cases "\<not> truthy ?uid \<or> \<not> truthy ?bid")
    case True
    then show ?thesis by (auto simp add: post_commandes_def Let_def)
  next
    case valid: False
    show ?thesis
    proof (cases "fst (verify_user env ?uid s)")
      case (Respond r)
      then show ?thesis
        using valid ur [OF Respond] u by (simp add: post_commandes_def Let_def split: prod.splits)
    next
      case (Throw e)
      then show ?thesis
        using valid ut [OF Throw] u by (simp add: post_commandes_def Let_def split: prod.splits)
    next
      case Proceed
      note P = Proceed
      have vu: "verify_user env ?uid s = (Proceed, ?s1)"
        using u P up [OF P] by simp
      show ?thesis
      proof (cases "fst (verify_book env ?bid s)")
        case (Respond r)
        then show ?thesis
          using valid vu P b [of ?s1] br [OF Respond]
          by (simp add: post_commandes_def Let_def)
      next
        case (Throw e)
        then show ?thesis
          using valid vu P b [of ?s1] bt [OF Throw]
          by (simp add: post_commandes_def Let_def)
      next
        case Proceed
        then show ?thesis
          using valid vu P b [of ?s1] bp [OF Proceed]
          by (simp add: post_commandes_def Let_def Order_create_def split: option.splits)
      qed
    qed
  qed
qed

lemma user_url_not_livres: "\<not> starts_with (user_url uid) LIVRES_SERVICE_URL"
  by (simp add: user_url_def LIVRES_SERVICE_URL_def UTILISATEURS_SERVICE_URL_def)

lemma post_commandes_issued:
  "(issued s (snd (post_commandes env req_body s)) = [])
   \<or> (issued s (snd (post_commandes env req_body s)) =
         [user_url (get_prop (JObj req_body) ''userId'')]
      \<and> truthy (get_prop (JObj req_body) ''userId'')
      \<and> truthy (get_prop (JObj req_body) ''bookId'')
      \<and> \<not> to_string_throws (get_prop (JObj req_body) ''userId''))
   \<or> (issued s (snd (post_commandes env req_body s)) =
         [user_url (get_prop (JObj req_body) ''userId''),
          book_url (get_prop (JObj req_body) ''bookId'')]
      \<and> truthy (get_prop (JObj req_body) ''userId'')
      \<and> truthy (get_prop (JObj req_body) ''bookId'')
      \<and> fst (verify_user env (get_prop (JObj req_body) ''userId'') s) = Proceed)"
proof (cases "truthy (get_prop (JObj req_body) ''userId'')
              \<and> truthy (get_prop (JObj req_body) ''bookId'')")
  case False
  then show ?thesis
    by (auto simp add: post_commandes_unfold Let_def issued_def)
next
  case True
  show ?thesis
  proof (cases "fst (verify_user env (get_prop (JObj req_body) ''userId'') s)")
    case Proceed
    then have "\<not> to_string_throws (get_prop (JObj req_body) ''userId'')"
      by (simp add: verify_user_Proceed)
    then show ?thesis
      using True Proceed
      by (cases "fst (verify_book env (get_prop (JObj req_body) ''bookId'') s)")
         (simp_all add: post_commandes_unfold Let_def issued_def split: option.splits)
  next
    case (Respond r)
    then show ?thesis
      using True verify_user_Respond [OF Respond]
      by (simp add: post_commandes_unfold Let_def issued_def)
  next
    case (Throw e)
    then show ?thesis
      using True by (simp add: post_commandes_unfold Let_def issued_def)
  qed
qed

lemma verify_user_404:
  "\<not> to_string_throws uid \<Longrightarrow> http env (user_url uid) = Rejected (Some (404, d)) \<Longrightarrow>
     fst (verify_user env uid s) =
       Respond (send 404 (''Utilisateur avec ID '' @ to_string uid @ '' non trouv'' @ e_acute @ ''.''))"
  by (simp add: verify_user_def axios_get_def)

lemma verify_user_failure:
  "\<not> to_string_throws uid \<Longrightarrow> http env (user_url uid) = Rejected r \<Longrightarrow>
   \<forall>d. r \<noteq> Some (404, d) \<Longrightarrow>
     fst (verify_user env uid s) =
       Respond (send 500 (''Erreur lors de la v'' @ e_acute @ ''rification de l'' @ apostrophe
                           @ ''utilisateur.''))"
  by (simp add: verify_user_def axios_get_def split: option.splits)

lemma verify_book_404:
  "\<not> to_string_throws bid \<Longrightarrow> http env (book_url bid) = Rejected (Some (404, d)) \<Longrightarrow>
     fst (verify_book env bid s) =
       Respond (send 404 (''Livre avec ID '' @ to_string bid @ '' non trouv'' @ e_acute @ ''.''))"
  by (simp add: verify_book_def axios_get_def)

lemma verify_book_failure:
  "\<not> to_string_throws bid \<Longrightarrow> http env (book_url bid) = Rejected r \<Longrightarrow>
   \<forall>d. r \<noteq> Some (404, d) \<Longrightarrow>
     fst (verify_book env bid s) =
       Respond (send 500 (''Erreur lors de la v'' @ e_acute @ ''rification du livre.''))"
  by (simp add: verify_book_def axios_get_def split: option.splits)

subsection \<open>Enrichment\<close>

lemma enrich_fst_indep: "fst (enrich env row s) = fst (enrich env row t)"
  by (simp add: enrich_def axios_get_def Let_def split: prod.splits)

lemma enrich_all_fst: "fst (enrich_all env rows s) = map (\<lambda>row. fst (enrich env row s)) rows"
proof (induction rows arbitrary: s)
  case Nil
  show ?case by simp
next
  case (Cons row rest)
  have "fst (enrich_all env rest (snd (enrich env row s))) = map (\<lambda>row. fst (enrich env row s)) rest"
    using Cons.IH [of "snd (enrich env row s)"] enrich_fst_indep [of env _ "snd (enrich env row s)" s]
    by simp
  then show ?case
    by (simp add: Let_def case_prod_beta)
qed

lemma get_commandes_fst:
  "fst (get_commandes env s) =
     (case db_error env OrderFindAll of
        Some e \<Rightarrow> send 500 (''Erreur serveur lors de la r'' @ e_acute @ ''cup'' @ e_acute
                      @ ''ration des commandes.'')
      | None \<Rightarrow> json 200 (JArr (map (\<lambda>row. fst (enrich env row s)) (orders s))))"
  using enrich_all_fst [of env "orders s" s]
  by (simp add: get_commandes_def Order_findAll_def case_prod_beta split: option.splits)

lemma get_commandes_orders_only:
  "orders s = orders t \<Longrightarrow> fst (get_commandes env s) = fst (get_commandes env t)"
proof -
  assume eq: "orders s = orders t"
  have "(\<lambda>row. fst (enrich env row s)) = (\<lambda>row. fst (enrich env row t))"
    by (rule ext) (rule enrich_fst_indep)
  then show ?thesis
    by (simp add: get_commandes_fst eq split: option.splits)
qed

text \<open>The enriched order, in terms of the two lookups.\<close>

lemma enrich_enriched:
  "fst (enrich env row s) =
     enriched (order_instance row)
       (if truthy (opt_data (catch_null (http env (user_url (js_of_sql (userId row))))))
        then get_prop (opt_data (catch_null (http env (user_url (js_of_sql (userId row)))))) ''name''
        else JStr ''Utilisateur inconnu'')
       (if truthy (opt_data (catch_null (http env (book_url (js_of_sql (bookId row))))))
        then get_prop (opt_data (catch_null (http env (book_url (js_of_sql (bookId row)))))) ''title''
        else JStr ''Livre inconnu'')"
  by (simp add: enrich_def axios_get_def Let_def enriched_def order_instance_def)

lemma enrich_calls:
  "calls (snd (enrich env row s)) =
     calls s @ [user_url (js_of_sql (userId row)), book_url (js_of_sql (bookId row))]"
  by (simp add: enrich_def axios_get_def Let_def order_instance_def)

lemma get_commande_found:
  "parseInt param_id 10 = Some n \<Longrightarrow> Order_findByPk env n s = Inr (Some row) \<Longrightarrow>
     fst (get_commande env param_id s) = json 200 (fst (enrich env row s))"
  by (simp add: get_commande_def case_prod_beta)

lemma get_commandes_found:
  "Order_findAll env s = Inr found \<Longrightarrow>
     fst (get_commandes env s) = json 200 (JArr (map (\<lambda>row. fst (enrich env row s)) found))"
  by (auto simp add: get_commandes_fst Order_findAll_def split: option.splits)

lemma enriched_distinct:
  "distinct (map fst (order_members order @ [(''userName'', un), (''bookTitle'', bt)]))"
  by (simp add: order_members_def)

lemma enriched_get_prop:
  "get_prop (to_json (enriched order un bt)) k = to_json (get_prop (enriched order un bt) k)"
  unfolding enriched_def by (rule get_prop_to_json) (rule enriched_distinct)

lemma enriched_members:
  "get_prop (enriched order un bt) ''id'' = JNum (id' order)"
  "get_prop (enriched order un bt) ''userId'' = userId order"
  "get_prop (enriched order un bt) ''bookId'' = bookId order"
  "get_prop (enriched order un bt) ''dateCommande'' = JNum (dateCommande order)"
  "get_prop (enriched order un bt) ''status'' = JStr (status order)"
  "get_prop (enriched order un bt) ''createdAt'' = JNum (createdAt order)"
  "get_prop (enriched order un bt) ''updatedAt'' = JNum (updatedAt order)"
  "get_prop (enriched order un bt) ''userName'' = un"
  "get_prop (enriched order un bt) ''bookTitle'' = bt"
  by (simp_all add: enriched_def order_members_def get_prop_def)

lemma instance_fields:
  "id' (order_instance row) = id' row"
  "userId (order_instance row) = js_of_sql (userId row)"
  "bookId (order_instance row) = js_of_sql (bookId row)"
  "dateCommande (order_instance row) = dateCommande row"
  "status (order_instance row) = status row"
  "createdAt (order_instance row) = createdAt row"
  "updatedAt (order_instance row) = updatedAt row"
  by (simp_all add: order_instance_def)

lemma own_fields:
  "get_prop (to_json (fst (enrich env row s))) ''id'' = JNum (id' row) \<and>
   get_prop (to_json (fst (enrich env row s))) ''userId'' = js_of_sql (userId row) \<and>
   get_prop (to_json (fst (enrich env row s))) ''bookId'' = js_of_sql (bookId row) \<and>
   get_prop (to_json (fst (enrich env row s))) ''dateCommande'' = JNum (dateCommande row) \<and>
   get_prop (to_json (fst (enrich env row s))) ''status'' = JStr (status row) \<and>
   get_prop (to_json (fst (enrich env row s))) ''createdAt'' = JNum (createdAt row) \<and>
   get_prop (to_json (fst (enrich env row s))) ''updatedAt'' = JNum (updatedAt row)"
  unfolding enrich_enriched enriched_get_prop enriched_members instance_fields
  by (simp add: to_json_sql)

lemma userName_field:
  "get_prop (to_json (fst (enrich env row s))) ''userName'' =
     to_json (if truthy (opt_data (catch_null (http env (user_url (js_of_sql (userId row))))))
        then get_prop (opt_data (catch_null (http env (user_url (js_of_sql (userId row)))))) ''name''
        else JStr ''Utilisateur inconnu'')"
  unfolding enrich_enriched enriched_get_prop enriched_members by (rule refl)

lemma bookTitle_field:
  "get_prop (to_json (fst (enrich env row s))) ''bookTitle'' =
     to_json (if truthy (opt_data (catch_null (http env (book_url (js_of_sql (bookId row))))))
        then get_prop (opt_data (catch_null (http env (book_url (js_of_sql (bookId row)))))) ''title''
        else JStr ''Livre inconnu'')"
  unfolding enrich_enriched enriched_get_prop enriched_members by (rule refl)

lemma enrich_not_undefined: "\<not> is_undefined (fst (enrich env row s))"
  by (simp add: enrich_enriched enriched_def is_undefined_def)

lemma to_json_enriched_list:
  "to_json (JArr (map (\<lambda>row. fst (enrich env row s)) found)) =
     JArr (map (\<lambda>row. to_json (fst (enrich env row s))) found)"
  by (simp add: enrich_not_undefined)

lemma rejected_data: "\<not> is_resolved r \<Longrightarrow> opt_data (catch_null r) = JUndefined"
  by (cases r) (simp_all add: opt_data_def catch_null_def)

lemma resolved_data: "r = Resolved st d \<Longrightarrow> opt_data (catch_null r) = d"
  by (simp add: opt_data_def catch_null_def)

lemma enriched_userName_absent:
  "to_json (enriched order JUndefined bt) = JObj ms \<Longrightarrow> ''userName'' \<notin> fst ` set ms"
proof
  assume j: "to_json (enriched order JUndefined bt) = JObj ms" and k: "''userName'' \<in> fst ` set ms"
  from to_json_member [OF j [unfolded enriched_def] k]
  show False by (auto simp add: order_members_def)
qed

lemma enriched_bookTitle_absent:
  "to_json (enriched order un JUndefined) = JObj ms \<Longrightarrow> ''bookTitle'' \<notin> fst ` set ms"
proof
  assume j: "to_json (enriched order un JUndefined) = JObj ms" and k: "''bookTitle'' \<in> fst ` set ms"
  from to_json_member [OF j [unfolded enriched_def] k]
  show False by (auto simp add: order_members_def)
qed

subsection \<open>PUT /livres/:id\<close>

lemma assigned_fields:
  "book_id (assigned book t a y) = book_id book"
  "title (assigned book t a y) = (if truthy t then t else title book)"
  "author (assigned book t a y) = (if truthy a then a else author book)"
  "year (assigned book t a y) = (if y = JUndefined then year book else y)"
  by (simp_all add: assigned_def Let_def is_undefined_iff)

lemma stamped_fields:
  "book_id (stamped env row b) = book_id b"
  "title (stamped env row b) = title b"
  "author (stamped env row b) = author b"
  "year (stamped env row b) = year b"
  by (simp_all add: stamped_def)

lemma book_instance_fields:
  "book_id (book_instance row) = book_id row"
  "title (book_instance row) = js_of_sql (title row)"
  "author (book_instance row) = js_of_sql (author row)"
  "year (book_instance row) = js_of_sql (year row)"
  by (simp_all add: book_instance_def)

lemma written_fields:
  "book_id (written env row b) = book_id row"
  "title (written env row b) =
     (if title b = js_of_sql (title row) then title row else text_affinity env (title b))"
  "author (written env row b) =
     (if author b = js_of_sql (author row) then author row else text_affinity env (author b))"
  "year (written env row b) =
     (if year b = js_of_sql (year row) then year row else integer_affinity env (year b))"
  by (simp_all add: written_def)

lemma Book_save_unfold:
  "Book_save env row b books =
     (if is_structured (title b) \<or> is_structured (author b)
      then Inl (JsError ''SequelizeValidationError'' (fst (string_violation env b))
                  (snd (string_violation env b)))
      else
      case db_error env BookSave of
        Some e \<Rightarrow> Inl e
      | None \<Rightarrow> Inr (stamped env row b,
                     map (\<lambda>x. if book_id x = book_id row then written env row b else x) books))"
  unfolding Book_save_def stamped_def written_def Let_def by (rule refl)

lemma structured_truthy: "is_structured v \<Longrightarrow> truthy v"
  by (cases v) simp_all

lemma sql_plain: "\<not> is_structured (js_of_sql v)"
  by (cases v) simp_all

lemma assigned_structured:
  "is_structured (title (assigned (book_instance row) t a y)) \<longleftrightarrow> is_structured t"
  "is_structured (author (assigned (book_instance row) t a y)) \<longleftrightarrow> is_structured a"
  using structured_truthy [of t] structured_truthy [of a]
  by (auto simp add: assigned_fields book_instance_fields sql_plain)

lemma validation_status:
  "statusCode (put_livre_catch (JsError ''SequelizeValidationError'' m es)) = 400"
  by (simp add: put_livre_catch_def json_status)

lemma put_livre_assigned:
  "put_livre env param_id req_body books =
     (case Book_findByPk env (parseInt param_id 0) books of
        Inl error \<Rightarrow> (put_livre_catch error, books)
      | Inr None \<Rightarrow> (send 404 (''Livre non trouv'' @ e_acute), books)
      | Inr (Some row) \<Rightarrow>
          if \<not> truthy (get_prop (JObj req_body) ''title'')
             \<and> \<not> truthy (get_prop (JObj req_body) ''author'')
             \<and> is_undefined (get_prop (JObj req_body) ''year'')
          then (send 400 (''Au moins un champ (titre, auteur, ann'' @ e_acute
                           @ ''e) doit '' @ e_circ @ ''tre fourni pour la mise ''
                           @ a_grave @ '' jour''), books)
          else (case Book_save env row
                       (assigned (book_instance row)
                          (get_prop (JObj req_body) ''title'')
                          (get_prop (JObj req_body) ''author'')
                          (get_prop (JObj req_body) ''year'')) books of
                  Inl error \<Rightarrow> (put_livre_catch error, books)
                | Inr (saved, books') \<Rightarrow> (json 200 (JObj (book_members saved)), books')))"
  unfolding put_livre_def assigned_def Let_def by (rule refl)

lemma put_livre_found:
  assumes "Book_findByPk env (parseInt param_id 0) books = Inr (Some row)"
  shows "put_livre env param_id req_body books =
     (if \<not> truthy (get_prop (JObj req_body) ''title'')
         \<and> \<not> truthy (get_prop (JObj req_body) ''author'')
         \<and> get_prop (JObj req_body) ''year'' = JUndefined
      then (send 400 (''Au moins un champ (titre, auteur, ann'' @ e_acute
                       @ ''e) doit '' @ e_circ @ ''tre fourni pour la mise ''
                       @ a_grave @ '' jour''), books)
      else if is_structured (get_prop (JObj req_body) ''title'')
              \<or> is_structured (get_prop (JObj req_body) ''author'')
      then (put_livre_catch
              (JsError ''SequelizeValidationError''
                 (fst (string_violation env (assigned (book_instance row)
                     (get_prop (JObj req_body) ''title'')
                     (get_prop (JObj req_body) ''author'')
                     (get_prop (JObj req_body) ''year''))))
                 (snd (string_violation env (assigned (book_instance row)
                     (get_prop (JObj req_body) ''title'')
                     (get_prop (JObj req_body) ''author'')
                     (get_prop (JObj req_body) ''year''))))), books)
      else case db_error env BookSave of
             Some e \<Rightarrow> (put_livre_catch e, books)
           | None \<Rightarrow>
               (json 200 (JObj (book_members
                  (stamped env row (assigned (book_instance row)
                     (get_prop (JObj req_body) ''title'')
                     (get_prop (JObj req_body) ''author'')
                     (get_prop (JObj req_body) ''year''))))),
                map (\<lambda>b. if book_id b = book_id row
                         then written env row (assigned (book_instance row)
                                (get_prop (JObj req_body) ''title'')
                                (get_prop (JObj req_body) ''author'')
                                (get_prop (JObj req_body) ''year''))
                         else b) books))"
  by (simp add: put_livre_assigned assms Book_save_unfold assigned_structured is_undefined_iff
      split: option.splits)

lemma find_replaced:
  "find P xs = Some x \<Longrightarrow> P y \<Longrightarrow> find P (map (\<lambda>b. if P b then y else b) xs) = Some y"
  by (induction xs) (auto split: if_splits)

lemma sint_inject: "sint (a :: 'a::len word) = sint b \<longleftrightarrow> a = b"
  by (auto intro: signed_word_eqI)

lemma findByPk_key:
  "Book_findByPk env pk books = Inr (Some row) \<Longrightarrow>
     db_error env BookFindByPk = None \<and> pk = Some (sint (book_id row))
     \<and> find (\<lambda>b. book_id b = book_id row) books = Some row"
proof -
  assume a: "Book_findByPk env pk books = Inr (Some row)"
  then obtain n where e: "db_error env BookFindByPk = None" and pk: "pk = Some n"
    and f: "find (\<lambda>b. sint (book_id b) = n) books = Some row"
    by (auto simp add: Book_findByPk_def split: option.splits)
  from f have n: "n = sint (book_id row)"
    by (auto simp add: find_Some_iff)
  have eq: "(\<lambda>b. sint (book_id b) = n) = (\<lambda>b. book_id b = book_id row)"
    by (simp add: n sint_inject)
  from f have "find (\<lambda>b. book_id b = book_id row) books = Some row"
    unfolding eq .
  with e pk n show ?thesis
    by simp
qed

lemma findByPk_after:
  assumes "Book_findByPk env pk books = Inr (Some row)" and "book_id new = book_id row"
  shows "Book_findByPk env pk (map (\<lambda>b. if book_id b = book_id row then new else b) books)
           = Inr (Some new)"
proof -
  from findByPk_key [OF assms(1)]
  have e: "db_error env BookFindByPk = None" and pk: "pk = Some (sint (book_id row))"
    and f: "find (\<lambda>b. book_id b = book_id row) books = Some row" by simp_all
  have "find (\<lambda>b. book_id b = book_id row)
          (map (\<lambda>b. if book_id b = book_id row then new else b) books) = Some new"
    using f assms(2) by (rule find_replaced)
  then show ?thesis
    by (simp add: Book_findByPk_def e pk sint_inject)
qed

section \<open>The claims\<close>

text \<open>
  C1. A create-order request that is rejected, whatever the reason (any response other
  than 201), leaves the Orders table and its identifier sequence as they were, and a
  list request made afterwards gives the response it would have given before. An order
  is written only when both validation requests were issued, user first, and both were
  resolved; the response is then 201.
\<close>

theorem rejected_order_not_persisted:
  "(statusCode (fst (post_commandes env req_body s)) \<noteq> 201 \<longrightarrow>
      orders (snd (post_commandes env req_body s)) = orders s \<and>
      last_id (snd (post_commandes env req_body s)) = last_id s \<and>
      fst (get_commandes env' (snd (post_commandes env req_body s))) = fst (get_commandes env' s))
   \<and>
   (orders (snd (post_commandes env req_body s)) \<noteq> orders s \<longrightarrow>
      is_resolved (http env (user_url (get_prop (JObj req_body) ''userId''))) \<and>
      is_resolved (http env (book_url (get_prop (JObj req_body) ''bookId''))) \<and>
      issued s (snd (post_commandes env req_body s)) =
        [user_url (get_prop (JObj req_body) ''userId''),
         book_url (get_prop (JObj req_body) ''bookId'')] \<and>
      statusCode (fst (post_commandes env req_body s)) = 201)"
proof -
  let ?uid = "get_prop (JObj req_body) ''userId''"
  let ?bid = "get_prop (JObj req_body) ''bookId''"
  let ?p = "post_commandes env req_body s"
  have same: "orders (snd ?p) = orders s \<Longrightarrow>
      fst (get_commandes env' (snd ?p)) = fst (get_commandes env' s)"
    by (rule get_commandes_orders_only)
  have keep: "statusCode (fst ?p) \<noteq> 201 \<Longrightarrow>
      orders (snd ?p) = orders s \<and> last_id (snd ?p) = last_id s"
    by (simp add: post_commandes_unfold Let_def json_status
        split: step.splits option.splits if_splits)
  have written: "orders (snd ?p) \<noteq> orders s \<Longrightarrow>
      fst (verify_user env ?uid s) = Proceed \<and>
      fst (verify_book env ?bid s) = Proceed \<and>
      issued s (snd ?p) = [user_url ?uid, book_url ?bid] \<and> statusCode (fst ?p) = 201"
    by (simp add: post_commandes_unfold Let_def issued_def json_status
        split: step.splits option.splits if_splits)
  have book: "fst (verify_book env ?bid s) = Proceed \<Longrightarrow> is_resolved (http env (book_url ?bid))"
    by (auto simp add: verify_book_Proceed)
  have user: "fst (verify_user env ?uid s) = Proceed \<Longrightarrow> is_resolved (http env (user_url ?uid))"
    by (simp add: verify_user_Proceed)
  show ?thesis
    using same keep written book user by blast
qed

text \<open>
  The request for the unknown user 7 is answered 404 and the table keeps its two
  orders; the request for user 1 and book 2 adds a third.
\<close>

theorem rejected_order_not_persisted_witness:
  "statusCode (fst (post_commandes env_live req_unknown_user s_two)) = 404 \<and>
   orders (snd (post_commandes env_live req_unknown_user s_two)) = orders s_two \<and>
   fst (get_commandes env_live (snd (post_commandes env_live req_unknown_user s_two)))
     = fst (get_commandes env_live s_two) \<and>
   length (orders (snd (post_commandes env_live req_valid s_two))) = 3 \<and>
   statusCode (fst (post_commandes env_live req_valid s_two)) = 201"
proof -
  have h1: "statusCode (fst (post_commandes env_live req_unknown_user s_two)) = 404"
    by code_simp
  then have h1': "statusCode (fst (post_commandes env_live req_unknown_user s_two)) \<noteq> 201"
    by simp
  have h2: "length (orders (snd (post_commandes env_live req_valid s_two))) = 3"
    by code_simp
  have "length (orders s_two) = 2"
    by code_simp
  with h2 have h2': "orders (snd (post_commandes env_live req_valid s_two)) \<noteq> orders s_two"
    by auto
  show ?thesis
    using h1 h1' h2 h2'
      rejected_order_not_persisted [of env_live req_unknown_user s_two env_live]
      rejected_order_not_persisted [of env_live req_valid s_two env_live]
    by blast
qed

text \<open>
  C2. The requests that one create-order request issues are none, the user request
  alone, or the user request followed by the book request. A request to Service Livres
  is issued only when the user request was resolved; when the user request is rejected,
  for whatever reason, no request goes to Service Livres.
\<close>

theorem validation_sequential_user_first:
  "(issued s (snd (post_commandes env req_body s)) = []
    \<or> issued s (snd (post_commandes env req_body s)) =
         [user_url (get_prop (JObj req_body) ''userId'')]
    \<or> issued s (snd (post_commandes env req_body s)) =
         [user_url (get_prop (JObj req_body) ''userId''),
          book_url (get_prop (JObj req_body) ''bookId'')])
   \<and>
   ((\<exists>u \<in> set (issued s (snd (post_commandes env req_body s))). starts_with u LIVRES_SERVICE_URL)
      \<longrightarrow> is_resolved (http env (user_url (get_prop (JObj req_body) ''userId'')))
          \<and> issued s (snd (post_commandes env req_body s)) =
              [user_url (get_prop (JObj req_body) ''userId''),
               book_url (get_prop (JObj req_body) ''bookId'')])
   \<and>
   (\<not> is_resolved (http env (user_url (get_prop (JObj req_body) ''userId'')))
      \<longrightarrow> (\<forall>u \<in> set (issued s (snd (post_commandes env req_body s))).
             \<not> starts_with u LIVRES_SERVICE_URL))"
proof -
  let ?uid = "get_prop (JObj req_body) ''userId''"
  let ?bid = "get_prop (JObj req_body) ''bookId''"
  let ?i = "issued s (snd (post_commandes env req_body s))"
  have shape: "?i = [] \<or> ?i = [user_url ?uid]
      \<or> (?i = [user_url ?uid, book_url ?bid] \<and> fst (verify_user env ?uid s) = Proceed)"
    using post_commandes_issued [of s env req_body] by blast
  have res: "fst (verify_user env ?uid s) = Proceed \<Longrightarrow> is_resolved (http env (user_url ?uid))"
    by (simp add: verify_user_Proceed)
  show ?thesis
    using shape res user_url_not_livres [of ?uid] by auto
qed

text \<open>
  With the Account Service unreachable the only request issued is the one for the
  user, and the answer is 500; with both services up, the book request follows the user
  request.
\<close>

theorem validation_sequential_user_first_witness:
  "\<not> is_resolved (http env_down (user_url (get_prop (JObj req_valid) ''userId''))) \<and>
   list_all (\<lambda>u. \<not> starts_with u LIVRES_SERVICE_URL)
     (issued s_two (snd (post_commandes env_down req_valid s_two))) \<and>
   statusCode (fst (post_commandes env_down req_valid s_two)) = 500 \<and>
   issued s_two (snd (post_commandes env_live req_valid s_two)) =
     [''http://localhost:3003/users/1'', ''http://localhost:3001/livres/2''] \<and>
   is_resolved (http env_live (user_url (get_prop (JObj req_valid) ''userId'')))"
proof -
  have h: "\<not> is_resolved (http env_down (user_url (get_prop (JObj req_valid) ''userId'')))"
    by code_simp
  have st: "statusCode (fst (post_commandes env_down req_valid s_two)) = 500"
    by code_simp
  have i: "issued s_two (snd (post_commandes env_live req_valid s_two)) =
     [''http://localhost:3003/users/1'', ''http://localhost:3001/livres/2'']"
    by code_simp
  have l: "starts_with ''http://localhost:3001/livres/2'' LIVRES_SERVICE_URL"
    by code_simp
  have ex: "\<exists>u \<in> set (issued s_two (snd (post_commandes env_live req_valid s_two))).
      starts_with u LIVRES_SERVICE_URL"
    using i l by simp
  show ?thesis
    using h st i ex
      validation_sequential_user_first [of s_two env_down req_valid]
      validation_sequential_user_first [of s_two env_live req_valid]
    unfolding list_all_iff by blast
qed

text \<open>
  C3. When the order is found, GET /commandes/:id answers 200 with the enriched order,
  and GET /commandes answers 200 with the array of the enriched orders of the table.
  The enriched order carries the seven fields of the order as they are in the table. If
  the user request is rejected, for whatever reason, \<open>userName\<close> is
  \<open>Utilisateur inconnu\<close>; if the book request is rejected, \<open>bookTitle\<close> is
  \<open>Livre inconnu\<close>. Each of the two fields is determined by the outcome of its own
  request alone: a world that differs in the other request gives the same field.
\<close>

theorem enrichment_fault_tolerant:
  "(parseInt param_id 10 = Some n \<and> Order_findByPk env n s = Inr (Some order) \<longrightarrow>
      fst (get_commande env param_id s) =
        \<lparr>statusCode = 200, body = Json (to_json (fst (enrich env order s)))\<rparr>)
   \<and>
   (Order_findAll env s = Inr found \<longrightarrow>
      fst (get_commandes env s) =
        \<lparr>statusCode = 200,
         body = Json (JArr (map (\<lambda>order. to_json (fst (enrich env order s))) found))\<rparr>)
   \<and>
   (get_prop (to_json (fst (enrich env order s))) ''id'' = JNum (id' order) \<and>
    get_prop (to_json (fst (enrich env order s))) ''userId'' = js_of_sql (userId order) \<and>
    get_prop (to_json (fst (enrich env order s))) ''bookId'' = js_of_sql (bookId order) \<and>
    get_prop (to_json (fst (enrich env order s))) ''dateCommande'' = JNum (dateCommande order) \<and>
    get_prop (to_json (fst (enrich env order s))) ''status'' = JStr (status order) \<and>
    get_prop (to_json (fst (enrich env order s))) ''createdAt'' = JNum (createdAt order) \<and>
    get_prop (to_json (fst (enrich env order s))) ''updatedAt'' = JNum (updatedAt order))
   \<and>
   (\<not> is_resolved (http env (user_url (js_of_sql (userId order)))) \<longrightarrow>
      get_prop (to_json (fst (enrich env order s))) ''userName'' = JStr ''Utilisateur inconnu'')
   \<and>
   (\<not> is_resolved (http env (book_url (js_of_sql (bookId order)))) \<longrightarrow>
      get_prop (to_json (fst (enrich env order s))) ''bookTitle'' = JStr ''Livre inconnu'')
   \<and>
   (http env' (user_url (js_of_sql (userId order))) = http env (user_url (js_of_sql (userId order))) \<longrightarrow>
      get_prop (to_json (fst (enrich env' order s'))) ''userName'' =
      get_prop (to_json (fst (enrich env order s))) ''userName'')
   \<and>
   (http env' (book_url (js_of_sql (bookId order))) = http env (book_url (js_of_sql (bookId order))) \<longrightarrow>
      get_prop (to_json (fst (enrich env' order s'))) ''bookTitle'' =
      get_prop (to_json (fst (enrich env order s))) ''bookTitle'')"
proof -
  have one: "parseInt param_id 10 = Some n \<and> Order_findByPk env n s = Inr (Some order) \<longrightarrow>
      fst (get_commande env param_id s) =
        \<lparr>statusCode = 200, body = Json (to_json (fst (enrich env order s)))\<rparr>"
    using get_commande_found [of param_id n env s order] by (simp add: json_def)
  have all: "Order_findAll env s = Inr found \<longrightarrow>
      fst (get_commandes env s) =
        \<lparr>statusCode = 200,
         body = Json (JArr (map (\<lambda>order. to_json (fst (enrich env order s))) found))\<rparr>"
    using get_commandes_found [of env s found] to_json_enriched_list [of env s found]
    by (simp add: json_def)
  have u: "\<not> is_resolved (http env (user_url (js_of_sql (userId order)))) \<longrightarrow>
      get_prop (to_json (fst (enrich env order s))) ''userName'' = JStr ''Utilisateur inconnu''"
    by (simp add: userName_field rejected_data)
  have b: "\<not> is_resolved (http env (book_url (js_of_sql (bookId order)))) \<longrightarrow>
      get_prop (to_json (fst (enrich env order s))) ''bookTitle'' = JStr ''Livre inconnu''"
    by (simp add: bookTitle_field rejected_data)
  have iu: "http env' (user_url (js_of_sql (userId order))) = http env (user_url (js_of_sql (userId order))) \<longrightarrow>
      get_prop (to_json (fst (enrich env' order s'))) ''userName'' =
      get_prop (to_json (fst (enrich env order s))) ''userName''"
    by (simp add: userName_field)
  have ib: "http env' (book_url (js_of_sql (bookId order))) = http env (book_url (js_of_sql (bookId order))) \<longrightarrow>
      get_prop (to_json (fst (enrich env' order s'))) ''bookTitle'' =
      get_prop (to_json (fst (enrich env order s))) ''bookTitle''"
    by (simp add: bookTitle_field)
  show ?thesis
    using one all own_fields [of env order s] u b iu ib by blast
qed

text \<open>
  Order 12 refers to the deleted user 7 and the existing book 2: the answer is 200,
  with \<open>userName\<close> the unknown-user text and \<open>bookTitle\<close> the title of the book.
\<close>

theorem enrichment_fault_tolerant_witness:
  "fst (get_commande env_live ''12'' s_two) =
     \<lparr>statusCode = 200, body = Json (to_json (fst (enrich env_live order_orphan s_two)))\<rparr> \<and>
   fst (get_commandes env_live s_two) =
     \<lparr>statusCode = 200,
      body = Json (JArr (map (\<lambda>order. to_json (fst (enrich env_live order s_two)))
                            [order_one, order_orphan]))\<rparr> \<and>
   get_prop (to_json (fst (enrich env_live order_orphan s_two))) ''userName''
     = JStr ''Utilisateur inconnu'' \<and>
   get_prop (to_json (fst (enrich env_live order_orphan s_two))) ''bookTitle'' = JStr ''Emma'' \<and>
   get_prop (to_json (fst (enrich env_live order_orphan s_two))) ''userId'' = JNum 7 \<and>
   get_prop (to_json (fst (enrich env_down order_orphan s_two))) ''bookTitle''
     = JStr ''Livre inconnu'' \<and>
   get_prop (to_json (fst (enrich env_nameless order_orphan s_two))) ''userName''
     = JStr ''Utilisateur inconnu''"
proof -
  have p: "parseInt ''12'' 10 = Some 12"
    by code_simp
  have f: "Order_findByPk env_live 12 s_two = Inr (Some order_orphan)"
    by code_simp
  have a: "Order_findAll env_live s_two = Inr [order_one, order_orphan]"
    by code_simp
  have u: "\<not> is_resolved (http env_live (user_url (js_of_sql (userId order_orphan))))"
    by code_simp
  have b: "\<not> is_resolved (http env_down (book_url (js_of_sql (bookId order_orphan))))"
    by code_simp
  have e: "http env_nameless (user_url (js_of_sql (userId order_orphan)))
         = http env_live (user_url (js_of_sql (userId order_orphan)))"
    by code_simp
  have t: "get_prop (to_json (fst (enrich env_live order_orphan s_two))) ''bookTitle''
         = JStr ''Emma''"
    by code_simp
  have i: "js_of_sql (userId order_orphan) = JNum 7"
    by code_simp
  from enrichment_fault_tolerant [of "''12''" 12 env_live s_two order_orphan
         "[order_one, order_orphan]" env_nameless s_two] p f a u e
  have 1: "fst (get_commande env_live ''12'' s_two) =
     \<lparr>statusCode = 200, body = Json (to_json (fst (enrich env_live order_orphan s_two)))\<rparr>"
    and 2: "fst (get_commandes env_live s_two) =
     \<lparr>statusCode = 200,
      body = Json (JArr (map (\<lambda>order. to_json (fst (enrich env_live order s_two)))
                            [order_one, order_orphan]))\<rparr>"
    and 3: "get_prop (to_json (fst (enrich env_live order_orphan s_two))) ''userName''
     = JStr ''Utilisateur inconnu''"
    and 4: "get_prop (to_json (fst (enrich env_live order_orphan s_two))) ''userId''
     = js_of_sql (userId order_orphan)"
    and 5: "get_prop (to_json (fst (enrich env_nameless order_orphan s_two))) ''userName'' =
      get_prop (to_json (fst (enrich env_live order_orphan s_two))) ''userName''"
    by blast+
  from enrichment_fault_tolerant [of _ _ env_down s_two order_orphan] b
  have 6: "get_prop (to_json (fst (enrich env_down order_orphan s_two))) ''bookTitle''
     = JStr ''Livre inconnu''"
    by blast
  show ?thesis
    using 1 2 3 4 5 6 t i by simp
qed

text \<open>
  C4. Take a create-order request whose two identifiers are truthy and whose \<open>userId\<close>
  converts to a string. If the Account Service rejects the user request with
  status 404, the answer is 404 with the message naming the user; if it rejects it in
  any other way (another status, or no reply at all), the answer is 500 with the
  message of the user check. If the user request is resolved and \<open>bookId\<close> converts to a
  string, the same holds for the request to Service Livres, with the messages of the
  book. In each case the requests issued are those up to the failing one, and the table
  is as it was. The two 404 messages differ whatever the identifiers are.
\<close>

theorem creation_error_mapping:
  assumes "truthy (get_prop (JObj req_body) ''userId'')"
      and "truthy (get_prop (JObj req_body) ''bookId'')"
      and "\<not> to_string_throws (get_prop (JObj req_body) ''userId'')"
  shows
  "(http env (user_url (get_prop (JObj req_body) ''userId'')) = Rejected (Some (404, d)) \<longrightarrow>
      post_commandes env req_body s =
        (send 404 (''Utilisateur avec ID '' @ to_string (get_prop (JObj req_body) ''userId'')
                    @ '' non trouv'' @ e_acute @ ''.''),
         s\<lparr>calls := calls s @ [user_url (get_prop (JObj req_body) ''userId'')]\<rparr>))
   \<and>
   (http env (user_url (get_prop (JObj req_body) ''userId'')) = Rejected r
      \<and> (\<forall>d'. r \<noteq> Some (404, d')) \<longrightarrow>
      post_commandes env req_body s =
        (send 500 (''Erreur lors de la v'' @ e_acute @ ''rification de l'' @ apostrophe
                    @ ''utilisateur.''),
         s\<lparr>calls := calls s @ [user_url (get_prop (JObj req_body) ''userId'')]\<rparr>))
   \<and>
   (is_resolved (http env (user_url (get_prop (JObj req_body) ''userId'')))
      \<and> \<not> to_string_throws (get_prop (JObj req_body) ''bookId'')
      \<and> http env (book_url (get_prop (JObj req_body) ''bookId'')) = Rejected (Some (404, d)) \<longrightarrow>
      post_commandes env req_body s =
        (send 404 (''Livre avec ID '' @ to_string (get_prop (JObj req_body) ''bookId'')
                    @ '' non trouv'' @ e_acute @ ''.''),
         s\<lparr>calls := calls s @ [user_url (get_prop (JObj req_body) ''userId''),
                               book_url (get_prop (JObj req_body) ''bookId'')]\<rparr>))
   \<and>
   (is_resolved (http env (user_url (get_prop (JObj req_body) ''userId'')))
      \<and> \<not> to_string_throws (get_prop (JObj req_body) ''bookId'')
      \<and> http env (book_url (get_prop (JObj req_body) ''bookId'')) = Rejected r
      \<and> (\<forall>d'. r \<noteq> Some (404, d')) \<longrightarrow>
      post_commandes env req_body s =
        (send 500 (''Erreur lors de la v'' @ e_acute @ ''rification du livre.''),
         s\<lparr>calls := calls s @ [user_url (get_prop (JObj req_body) ''userId''),
                               book_url (get_prop (JObj req_body) ''bookId'')]\<rparr>))
   \<and>
   send 404 (''Utilisateur avec ID '' @ x @ '' non trouv'' @ e_acute @ ''.'')
     \<noteq> send 404 (''Livre avec ID '' @ y @ '' non trouv'' @ e_acute @ ''.'')"
proof -
  let ?uid = "get_prop (JObj req_body) ''userId''"
  let ?bid = "get_prop (JObj req_body) ''bookId''"
  let ?s1 = "s\<lparr>calls := calls s @ [user_url ?uid]\<rparr>"
  let ?s2 = "s\<lparr>calls := calls s @ [user_url ?uid, book_url ?bid]\<rparr>"
  have answer_user: "fst (verify_user env ?uid s) = Respond a \<Longrightarrow>
      post_commandes env req_body s = (a, ?s1)" for a
    using assms(1,2) by (simp add: post_commandes_unfold Let_def)
  have answer_book: "fst (verify_user env ?uid s) = Proceed \<Longrightarrow>
      fst (verify_book env ?bid s) = Respond a \<Longrightarrow>
      post_commandes env req_body s = (a, ?s2)" for a
    using assms(1,2) by (simp add: post_commandes_unfold Let_def)
  have proceed: "is_resolved (http env (user_url ?uid)) \<Longrightarrow> fst (verify_user env ?uid s) = Proceed"
    using assms(3) by (simp add: verify_user_Proceed)
  have c1: "http env (user_url ?uid) = Rejected (Some (404, d)) \<Longrightarrow>
      post_commandes env req_body s =
        (send 404 (''Utilisateur avec ID '' @ to_string ?uid @ '' non trouv'' @ e_acute @ ''.''), ?s1)"
    using verify_user_404 [OF assms(3), of env d s] by (rule answer_user)
  have c2: "http env (user_url ?uid) = Rejected r \<Longrightarrow> \<forall>d'. r \<noteq> Some (404, d') \<Longrightarrow>
      post_commandes env req_body s =
        (send 500 (''Erreur lors de la v'' @ e_acute @ ''rification de l'' @ apostrophe
                    @ ''utilisateur.''), ?s1)"
    using verify_user_failure [OF assms(3), of env r s] by (rule answer_user)
  have c3: "is_resolved (http env (user_url ?uid)) \<Longrightarrow> \<not> to_string_throws ?bid \<Longrightarrow>
      http env (book_url ?bid) = Rejected (Some (404, d)) \<Longrightarrow>
      post_commandes env req_body s =
        (send 404 (''Livre avec ID '' @ to_string ?bid @ '' non trouv'' @ e_acute @ ''.''), ?s2)"
    using verify_book_404 [of ?bid env d s] proceed by (rule answer_book [rotated])
  have c4: "is_resolved (http env (user_url ?uid)) \<Longrightarrow> \<not> to_string_throws ?bid \<Longrightarrow>
      http env (book_url ?bid) = Rejected r \<Longrightarrow> \<forall>d'. r \<noteq> Some (404, d') \<Longrightarrow>
      post_commandes env req_body s =
        (send 500 (''Erreur lors de la v'' @ e_acute @ ''rification du livre.''), ?s2)"
    using verify_book_failure [of ?bid env r s] proceed by (rule answer_book [rotated])
  have c5: "send 404 (''Utilisateur avec ID '' @ x @ '' non trouv'' @ e_acute @ ''.'')
      \<noteq> send 404 (''Livre avec ID '' @ y @ '' non trouv'' @ e_acute @ ''.'')"
    by (simp add: send_def)
  show ?thesis
    using c1 c2 c3 c4 c5 by blast
qed

text \<open>
  User 7 is unknown: 404 naming the user, one request issued. With the Account Service
  unreachable: 500, one request issued. Book 9 is unknown: 404 naming the book. With
  Service Livres answering 503: 500 with the message of the book check. No order is
  added in any of the four.
\<close>

theorem creation_error_mapping_witness:
  "post_commandes env_live req_unknown_user s_two =
     (send 404 (''Utilisateur avec ID 7 non trouv'' @ e_acute @ ''.''),
      s_two\<lparr>calls := [''http://localhost:3003/users/7'']\<rparr>) \<and>
   post_commandes env_down req_valid s_two =
     (send 500 (''Erreur lors de la v'' @ e_acute @ ''rification de l'' @ apostrophe
                 @ ''utilisateur.''),
      s_two\<lparr>calls := [''http://localhost:3003/users/1'']\<rparr>) \<and>
   post_commandes env_live req_unknown_book s_two =
     (send 404 (''Livre avec ID 9 non trouv'' @ e_acute @ ''.''),
      s_two\<lparr>calls := [''http://localhost:3003/users/1'', ''http://localhost:3001/livres/9'']\<rparr>) \<and>
   post_commandes env_catalog_down req_valid s_two =
     (send 500 (''Erreur lors de la v'' @ e_acute @ ''rification du livre.''),
      s_two\<lparr>calls := [''http://localhost:3003/users/1'', ''http://localhost:3001/livres/2'']\<rparr>)"
proof -
  have t1: "truthy (get_prop (JObj req_unknown_user) ''userId'')"
           "truthy (get_prop (JObj req_unknown_user) ''bookId'')"
           "\<not> to_string_throws (get_prop (JObj req_unknown_user) ''userId'')"
    by code_simp+
  have t2: "truthy (get_prop (JObj req_valid) ''userId'')"
           "truthy (get_prop (JObj req_valid) ''bookId'')"
           "\<not> to_string_throws (get_prop (JObj req_valid) ''userId'')"
           "\<not> to_string_throws (get_prop (JObj req_valid) ''bookId'')"
    by code_simp+
  have t3: "truthy (get_prop (JObj req_unknown_book) ''userId'')"
           "truthy (get_prop (JObj req_unknown_book) ''bookId'')"
           "\<not> to_string_throws (get_prop (JObj req_unknown_book) ''userId'')"
           "\<not> to_string_throws (get_prop (JObj req_unknown_book) ''bookId'')"
    by code_simp+
  have r1: "http env_live (user_url (get_prop (JObj req_unknown_user) ''userId''))
      = Rejected (Some (404, JStr ''introuvable''))"
    by code_simp
  have r2: "http env_down (user_url (get_prop (JObj req_valid) ''userId'')) = Rejected None"
    by code_simp
  have n2: "\<forall>d'. (None :: (nat \<times> jsval) option) \<noteq> Some (404, d')"
    by simp
  have r3: "is_resolved (http env_live (user_url (get_prop (JObj req_unknown_book) ''userId'')))"
           "http env_live (book_url (get_prop (JObj req_unknown_book) ''bookId''))
              = Rejected (Some (404, JStr ''introuvable''))"
    by code_simp+
  have r4: "is_resolved (http env_catalog_down (user_url (get_prop (JObj req_valid) ''userId'')))"
           "http env_catalog_down (book_url (get_prop (JObj req_valid) ''bookId''))
              = Rejected (Some (503, JStr ''indisponible''))"
    by code_simp+
  have n4: "\<forall>d'. Some (503 :: nat, JStr ''indisponible'') \<noteq> Some (404, d')"
    by simp
  have v1: "(send 404 (''Utilisateur avec ID '' @ to_string (get_prop (JObj req_unknown_user) ''userId'')
                    @ '' non trouv'' @ e_acute @ ''.''),
         s_two\<lparr>calls := calls s_two @ [user_url (get_prop (JObj req_unknown_user) ''userId'')]\<rparr>)
       = (send 404 (''Utilisateur avec ID 7 non trouv'' @ e_acute @ ''.''),
          s_two\<lparr>calls := [''http://localhost:3003/users/7'']\<rparr>)"
    by code_simp
  have v2: "s_two\<lparr>calls := calls s_two @ [user_url (get_prop (JObj req_valid) ''userId'')]\<rparr>
       = s_two\<lparr>calls := [''http://localhost:3003/users/1'']\<rparr>"
    by code_simp
  have v3: "(send 404 (''Livre avec ID '' @ to_string (get_prop (JObj req_unknown_book) ''bookId'')
                    @ '' non trouv'' @ e_acute @ ''.''),
         s_two\<lparr>calls := calls s_two @ [user_url (get_prop (JObj req_unknown_book) ''userId''),
                               book_url (get_prop (JObj req_unknown_book) ''bookId'')]\<rparr>)
       = (send 404 (''Livre avec ID 9 non trouv'' @ e_acute @ ''.''),
          s_two\<lparr>calls := [''http://localhost:3003/users/1'', ''http://localhost:3001/livres/9'']\<rparr>)"
    by code_simp
  have v4: "s_two\<lparr>calls := calls s_two @ [user_url (get_prop (JObj req_valid) ''userId''),
                               book_url (get_prop (JObj req_valid) ''bookId'')]\<rparr>
       = s_two\<lparr>calls := [''http://localhost:3003/users/1'', ''http://localhost:3001/livres/2'']\<rparr>"
    by code_simp
  from creation_error_mapping [OF t1, of env_live "JStr ''introuvable''" s_two] r1
  have a1: "post_commandes env_live req_unknown_user s_two =
        (send 404 (''Utilisateur avec ID '' @ to_string (get_prop (JObj req_unknown_user) ''userId'')
                    @ '' non trouv'' @ e_acute @ ''.''),
         s_two\<lparr>calls := calls s_two @ [user_url (get_prop (JObj req_unknown_user) ''userId'')]\<rparr>)"
    by blast
  from creation_error_mapping [OF t2(1,2,3), of env_down _ s_two None] r2 n2
  have a2: "post_commandes env_down req_valid s_two =
        (send 500 (''Erreur lors de la v'' @ e_acute @ ''rification de l'' @ apostrophe
                    @ ''utilisateur.''),
         s_two\<lparr>calls := calls s_two @ [user_url (get_prop (JObj req_valid) ''userId'')]\<rparr>)"
    by blast
  from creation_error_mapping [OF t3(1,2,3), of env_live "JStr ''introuvable''" s_two] r3 t3(4)
  have a3: "post_commandes env_live req_unknown_book s_two =
        (send 404 (''Livre avec ID '' @ to_string (get_prop (JObj req_unknown_book) ''bookId'')
                    @ '' non trouv'' @ e_acute @ ''.''),
         s_two\<lparr>calls := calls s_two @ [user_url (get_prop (JObj req_unknown_book) ''userId''),
                               book_url (get_prop (JObj req_unknown_book) ''bookId'')]\<rparr>)"
    by blast
  from creation_error_mapping [OF t2(1,2,3), of env_catalog_down _ s_two
      "Some (503, JStr ''indisponible'')"] r4 n4 t2(4)
  have a4: "post_commandes env_catalog_down req_valid s_two =
        (send 500 (''Erreur lors de la v'' @ e_acute @ ''rification du livre.''),
         s_two\<lparr>calls := calls s_two @ [user_url (get_prop (JObj req_valid) ''userId''),
                               book_url (get_prop (JObj req_valid) ''bookId'')]\<rparr>)"
    by blast
  show ?thesis
    using a1 a2 a3 a4 v1 v2 v3 v4 by simp
qed

text \<open>
  C5. Take a create-order request whose two identifiers are truthy and convert to
  strings, and a world where the user request is resolved, the book request is resolved
  with a payload that is not \<open>null\<close> and whose title converts to a string (the handler
  reads and prints the title inside the \<open>try\<close> of the book check), and \<open>Order.create\<close>
  does not throw. Then the response is 201 with the new order: its \<open>userId\<close> and \<open>bookId\<close>
  are the values of the body, its status is \<open>En cours\<close>, its \<open>dateCommande\<close> is the
  handler's clock at creation and its identifier is the next of the sequence. One row
  is added to the table, with the same identifier, status and dates, and with the two
  identifiers as the INTEGER columns hold them. A number is stored as it is: when the
  two identifiers are numbers, the row read back is the order of the response.
\<close>

theorem created_order_returned:
  assumes "truthy (get_prop (JObj req_body) ''userId'')"
      and "truthy (get_prop (JObj req_body) ''bookId'')"
      and "\<not> to_string_throws (get_prop (JObj req_body) ''userId'')"
      and "\<not> to_string_throws (get_prop (JObj req_body) ''bookId'')"
      and "http env (user_url (get_prop (JObj req_body) ''userId'')) = Resolved st1 d1"
      and "http env (book_url (get_prop (JObj req_body) ''bookId'')) = Resolved st2 d2"
      and "\<not> is_nullish d2"
      and "\<not> to_string_throws (get_prop d2 ''title'')"
      and "db_error env OrderCreate = None"
  shows "post_commandes env req_body s =
           (\<lparr>statusCode = 201,
             body = Json (to_json (JObj (order_members
               \<lparr>id' = last_id s + 1,
                userId = get_prop (JObj req_body) ''userId'',
                bookId = get_prop (JObj req_body) ''bookId'',
                dateCommande = now env, status = ''En cours'',
                createdAt = db_now env, updatedAt = db_now env\<rparr>)))\<rparr>,
            s\<lparr>calls := calls s @ [user_url (get_prop (JObj req_body) ''userId''),
                                  book_url (get_prop (JObj req_body) ''bookId'')],
              orders := orders s @
                [\<lparr>id' = last_id s + 1,
                  userId = integer_affinity env (get_prop (JObj req_body) ''userId''),
                  bookId = integer_affinity env (get_prop (JObj req_body) ''bookId''),
                  dateCommande = now env, status = ''En cours'',
                  createdAt = db_now env, updatedAt = db_now env\<rparr>],
              last_id := last_id s + 1\<rparr>)
         \<and>
         ((\<exists>n. get_prop (JObj req_body) ''userId'' = JNum n) \<and>
          (\<exists>m. get_prop (JObj req_body) ''bookId'' = JNum m) \<longrightarrow>
            order_instance (last (orders (snd (post_commandes env req_body s)))) =
              \<lparr>id' = last_id s + 1,
               userId = get_prop (JObj req_body) ''userId'',
               bookId = get_prop (JObj req_body) ''bookId'',
               dateCommande = now env, status = ''En cours'',
               createdAt = db_now env, updatedAt = db_now env\<rparr>)"
proof -
  let ?uid = "get_prop (JObj req_body) ''userId''"
  let ?bid = "get_prop (JObj req_body) ''bookId''"
  have u: "fst (verify_user env ?uid s) = Proceed"
    using assms(3,5) by (simp add: verify_user_Proceed)
  have b: "fst (verify_book env ?bid s) = Proceed"
    using assms(4,6,7,8) by (simp add: verify_book_Proceed)
  have p: "post_commandes env req_body s =
           (\<lparr>statusCode = 201,
             body = Json (to_json (JObj (order_members
               \<lparr>id' = last_id s + 1, userId = ?uid, bookId = ?bid,
                dateCommande = now env, status = ''En cours'',
                createdAt = db_now env, updatedAt = db_now env\<rparr>)))\<rparr>,
            s\<lparr>calls := calls s @ [user_url ?uid, book_url ?bid],
              orders := orders s @
                [\<lparr>id' = last_id s + 1,
                  userId = integer_affinity env ?uid, bookId = integer_affinity env ?bid,
                  dateCommande = now env, status = ''En cours'',
                  createdAt = db_now env, updatedAt = db_now env\<rparr>],
              last_id := last_id s + 1\<rparr>)"
    using assms(1,2,9) u b by (simp add: post_commandes_unfold Let_def json_def)
  have r: "(\<exists>n. ?uid = JNum n) \<and> (\<exists>m. ?bid = JNum m) \<Longrightarrow>
      order_instance (last (orders (snd (post_commandes env req_body s)))) =
        \<lparr>id' = last_id s + 1, userId = ?uid, bookId = ?bid,
         dateCommande = now env, status = ''En cours'',
         createdAt = db_now env, updatedAt = db_now env\<rparr>"
    unfolding p by (auto simp add: order_instance_def integer_affinity_number)
  show ?thesis
    using p r by blast
qed

text \<open>
  The request for user 1 and book 2 is answered 201 with order 13, which is the row
  added to the table. The same request with the identifiers sent as the strings \<open>"1"\<close>
  and \<open>"2"\<close> is answered with these strings, and the row holds the integers 1 and 2.
\<close>

theorem created_order_returned_witness:
  "post_commandes env_live req_valid s_two =
     (\<lparr>statusCode = 201,
       body = Json (JObj [(''id'', JNum 13), (''userId'', JNum 1), (''bookId'', JNum 2),
                          (''dateCommande'', JNum 1000), (''status'', JStr ''En cours''),
                          (''createdAt'', JNum 1001), (''updatedAt'', JNum 1001)])\<rparr>,
      \<lparr>orders = [order_one, order_orphan,
                 \<lparr>id' = 13, userId = SqlInteger 1, bookId = SqlInteger 2, dateCommande = 1000,
                  status = ''En cours'', createdAt = 1001, updatedAt = 1001\<rparr>],
       last_id = 13,
       calls = [''http://localhost:3003/users/1'', ''http://localhost:3001/livres/2'']\<rparr>) \<and>
   order_instance (last (orders (snd (post_commandes env_live req_valid s_two)))) =
     \<lparr>id' = 13, userId = JNum 1, bookId = JNum 2, dateCommande = 1000,
      status = ''En cours'', createdAt = 1001, updatedAt = 1001\<rparr> \<and>
   post_commandes env_live req_valid_text s_two =
     (\<lparr>statusCode = 201,
       body = Json (JObj [(''id'', JNum 13), (''userId'', JStr ''1''), (''bookId'', JStr ''2''),
                          (''dateCommande'', JNum 1000), (''status'', JStr ''En cours''),
                          (''createdAt'', JNum 1001), (''updatedAt'', JNum 1001)])\<rparr>,
      \<lparr>orders = [order_one, order_orphan,
                 \<lparr>id' = 13, userId = SqlInteger 1, bookId = SqlInteger 2, dateCommande = 1000,
                  status = ''En cours'', createdAt = 1001, updatedAt = 1001\<rparr>],
       last_id = 13,
       calls = [''http://localhost:3003/users/1'', ''http://localhost:3001/livres/2'']\<rparr>)"
proof -
  have t: "truthy (get_prop (JObj req_valid) ''userId'')"
          "truthy (get_prop (JObj req_valid) ''bookId'')"
          "\<not> to_string_throws (get_prop (JObj req_valid) ''userId'')"
          "\<not> to_string_throws (get_prop (JObj req_valid) ''bookId'')"
    by code_simp+
  have u: "http env_live (user_url (get_prop (JObj req_valid) ''userId''))
      = Resolved 200 payload_user"
    by code_simp
  have b: "http env_live (book_url (get_prop (JObj req_valid) ''bookId''))
      = Resolved 200 payload_book"
    by code_simp
  have n: "\<not> is_nullish payload_book" "\<not> to_string_throws (get_prop payload_book ''title'')"
    by code_simp+
  have e: "db_error env_live OrderCreate = None"
    by code_simp
  have nums: "(\<exists>n. get_prop (JObj req_valid) ''userId'' = JNum n) \<and>
      (\<exists>m. get_prop (JObj req_valid) ''bookId'' = JNum m)"
    by (simp add: req_valid_def get_prop_def)
  have t': "truthy (get_prop (JObj req_valid_text) ''userId'')"
          "truthy (get_prop (JObj req_valid_text) ''bookId'')"
          "\<not> to_string_throws (get_prop (JObj req_valid_text) ''userId'')"
          "\<not> to_string_throws (get_prop (JObj req_valid_text) ''bookId'')"
    by code_simp+
  have u': "http env_live (user_url (get_prop (JObj req_valid_text) ''userId''))
      = Resolved 200 payload_user"
    by code_simp
  have b': "http env_live (book_url (get_prop (JObj req_valid_text) ''bookId''))
      = Resolved 200 payload_book"
    by code_simp
  have v: "(\<lparr>statusCode = 201,
             body = Json (to_json (JObj (order_members
               \<lparr>id' = last_id s_two + 1,
                userId = get_prop (JObj req_valid) ''userId'',
                bookId = get_prop (JObj req_valid) ''bookId'',
                dateCommande = now env_live, status = ''En cours'',
                createdAt = db_now env_live, updatedAt = db_now env_live\<rparr>)))\<rparr>,
            s_two\<lparr>calls := calls s_two @ [user_url (get_prop (JObj req_valid) ''userId''),
                                  book_url (get_prop (JObj req_valid) ''bookId'')],
              orders := orders s_two @
                [\<lparr>id' = last_id s_two + 1,
                  userId = integer_affinity env_live (get_prop (JObj req_valid) ''userId''),
                  bookId = integer_affinity env_live (get_prop (JObj req_valid) ''bookId''),
                  dateCommande = now env_live, status = ''En cours'',
                  createdAt = db_now env_live, updatedAt = db_now env_live\<rparr>],
              last_id := last_id s_two + 1\<rparr>)
       = (\<lparr>statusCode = 201,
       body = Json (JObj [(''id'', JNum 13), (''userId'', JNum 1), (''bookId'', JNum 2),
                          (''dateCommande'', JNum 1000), (''status'', JStr ''En cours''),
                          (''createdAt'', JNum 1001), (''updatedAt'', JNum 1001)])\<rparr>,
      \<lparr>orders = [order_one, order_orphan,
                 \<lparr>id' = 13, userId = SqlInteger 1, bookId = SqlInteger 2, dateCommande = 1000,
                  status = ''En cours'', createdAt = 1001, updatedAt = 1001\<rparr>],
       last_id = 13,
       calls = [''http://localhost:3003/users/1'', ''http://localhost:3001/livres/2'']\<rparr>)"
    by code_simp
  have w: "\<lparr>id' = last_id s_two + 1,
               userId = get_prop (JObj req_valid) ''userId'',
               bookId = get_prop (JObj req_valid) ''bookId'',
               dateCommande = now env_live, status = ''En cours'',
               createdAt = db_now env_live, updatedAt = db_now env_live\<rparr>
       = \<lparr>id' = 13, userId = JNum 1, bookId = JNum 2, dateCommande = 1000,
      status = ''En cours'', createdAt = 1001, updatedAt = 1001\<rparr>"
    by code_simp
  have v': "(\<lparr>statusCode = 201,
             body = Json (to_json (JObj (order_members
               \<lparr>id' = last_id s_two + 1,
                userId = get_prop (JObj req_valid_text) ''userId'',
                bookId = get_prop (JObj req_valid_text) ''bookId'',
                dateCommande = now env_live, status = ''En cours'',
                createdAt = db_now env_live, updatedAt = db_now env_live\<rparr>)))\<rparr>,
            s_two\<lparr>calls := calls s_two @ [user_url (get_prop (JObj req_valid_text) ''userId''),
                                  book_url (get_prop (JObj req_valid_text) ''bookId'')],
              orders := orders s_two @
                [\<lparr>id' = last_id s_two + 1,
                  userId = integer_affinity env_live (get_prop (JObj req_valid_text) ''userId''),
                  bookId = integer_affinity env_live (get_prop (JObj req_valid_text) ''bookId''),
                  dateCommande = now env_live, status = ''En cours'',
                  createdAt = db_now env_live, updatedAt = db_now env_live\<rparr>],
              last_id := last_id s_two + 1\<rparr>)
       = (\<lparr>statusCode = 201,
       body = Json (JObj [(''id'', JNum 13), (''userId'', JStr ''1''), (''bookId'', JStr ''2''),
                          (''dateCommande'', JNum 1000), (''status'', JStr ''En cours''),
                          (''createdAt'', JNum 1001), (''updatedAt'', JNum 1001)])\<rparr>,
      \<lparr>orders = [order_one, order_orphan,
                 \<lparr>id' = 13, userId = SqlInteger 1, bookId = SqlInteger 2, dateCommande = 1000,
                  status = ''En cours'', createdAt = 1001, updatedAt = 1001\<rparr>],
       last_id = 13,
       calls = [''http://localhost:3003/users/1'', ''http://localhost:3001/livres/2'']\<rparr>)"
    by code_simp
  note a = created_order_returned [OF t u b n e, of s_two]
  note a' = created_order_returned [OF t' u' b' n e, of s_two]
  from a [THEN conjunct1] v have c1: "post_commandes env_live req_valid s_two =
     (\<lparr>statusCode = 201,
       body = Json (JObj [(''id'', JNum 13), (''userId'', JNum 1), (''bookId'', JNum 2),
                          (''dateCommande'', JNum 1000), (''status'', JStr ''En cours''),
                          (''createdAt'', JNum 1001), (''updatedAt'', JNum 1001)])\<rparr>,
      \<lparr>orders = [order_one, order_orphan,
                 \<lparr>id' = 13, userId = SqlInteger 1, bookId = SqlInteger 2, dateCommande = 1000,
                  status = ''En cours'', createdAt = 1001, updatedAt = 1001\<rparr>],
       last_id = 13,
       calls = [''http://localhost:3003/users/1'', ''http://localhost:3001/livres/2'']\<rparr>)"
    by (rule trans)
  from a [THEN conjunct2, THEN mp, OF nums] w have c2: "order_instance (last (orders (snd (post_commandes env_live req_valid s_two)))) =
     \<lparr>id' = 13, userId = JNum 1, bookId = JNum 2, dateCommande = 1000,
      status = ''En cours'', createdAt = 1001, updatedAt = 1001\<rparr>"
    by (rule trans)
  from a' [THEN conjunct1] v' have c3: "post_commandes env_live req_valid_text s_two =
     (\<lparr>statusCode = 201,
       body = Json (JObj [(''id'', JNum 13), (''userId'', JStr ''1''), (''bookId'', JStr ''2''),
                          (''dateCommande'', JNum 1000), (''status'', JStr ''En cours''),
                          (''createdAt'', JNum 1001), (''updatedAt'', JNum 1001)])\<rparr>,
      \<lparr>orders = [order_one, order_orphan,
                 \<lparr>id' = 13, userId = SqlInteger 1, bookId = SqlInteger 2, dateCommande = 1000,
                  status = ''En cours'', createdAt = 1001, updatedAt = 1001\<rparr>],
       last_id = 13,
       calls = [''http://localhost:3003/users/1'', ''http://localhost:3001/livres/2'']\<rparr>)"
    by (rule trans)
  show ?thesis
    using c1 c2 c3 by (intro conjI)
qed

text \<open>
  C6, as the handler has it. The test is \<open>!userId || !bookId\<close>: the answer is 400 exactly
  when one of the two values is falsy, which an absent member is, and so are \<open>null\<close>,
  \<open>false\<close>, \<open>0\<close> and the empty string. A request whose two values are truthy is never
  answered 400.
\<close>

theorem invalid_input_iff_falsy:
  "(statusCode (fst (post_commandes env req_body s)) = 400
      \<longleftrightarrow> \<not> truthy (get_prop (JObj req_body) ''userId'')
          \<or> \<not> truthy (get_prop (JObj req_body) ''bookId''))
   \<and>
   (\<not> truthy (get_prop (JObj req_body) ''userId'')
      \<or> \<not> truthy (get_prop (JObj req_body) ''bookId'') \<longrightarrow>
      post_commandes env req_body s = (send 400 ''userId et bookId sont requis'', s))
   \<and>
   (''userId'' \<notin> fst ` set req_body \<or> ''bookId'' \<notin> fst ` set req_body \<longrightarrow>
      post_commandes env req_body s = (send 400 ''userId et bookId sont requis'', s))"
proof -
  let ?uid = "get_prop (JObj req_body) ''userId''"
  let ?bid = "get_prop (JObj req_body) ''bookId''"
  have u: "fst (verify_user env ?uid s) = Respond r \<Longrightarrow> statusCode r \<noteq> 400" for r
    using verify_user_Respond [of env ?uid s r] by auto
  have b: "fst (verify_book env ?bid s) = Respond r \<Longrightarrow> statusCode r \<noteq> 400" for r
    using verify_book_Respond [of env ?bid s r] by auto
  have iff: "statusCode (fst (post_commandes env req_body s)) = 400
      \<longleftrightarrow> \<not> truthy ?uid \<or> \<not> truthy ?bid"
    using u b
    by (simp add: post_commandes_unfold Let_def send_status json_status catch_status
        split: step.splits option.splits)
  have absent: "''userId'' \<notin> fst ` set req_body \<or> ''bookId'' \<notin> fst ` set req_body \<Longrightarrow>
      \<not> truthy ?uid \<or> \<not> truthy ?bid"
    using get_prop_absent [of "''userId''" req_body] get_prop_absent [of "''bookId''" req_body]
    by auto
  have rej: "\<not> truthy ?uid \<or> \<not> truthy ?bid \<Longrightarrow>
      post_commandes env req_body s = (send 400 ''userId et bookId sont requis'', s)"
    by (simp add: post_commandes_unfold Let_def)
  show ?thesis
    using iff absent rej by blast
qed

text \<open>
  The body \<open>{ userId: 0, bookId: 2 }\<close> is answered 400; so is a body without \<open>bookId\<close>;
  the body \<open>{ userId: 1, bookId: 2 }\<close> is not.
\<close>

theorem invalid_input_iff_falsy_witness:
  "\<not> truthy (get_prop (JObj req_user_zero) ''userId'') \<and>
   statusCode (fst (post_commandes env_live req_user_zero s_two)) = 400 \<and>
   ''bookId'' \<notin> fst ` set req_no_book \<and>
   post_commandes env_live req_no_book s_two = (send 400 ''userId et bookId sont requis'', s_two) \<and>
   truthy (get_prop (JObj req_valid) ''userId'') \<and>
   truthy (get_prop (JObj req_valid) ''bookId'') \<and>
   statusCode (fst (post_commandes env_live req_valid s_two)) \<noteq> 400"
proof -
  have z: "\<not> truthy (get_prop (JObj req_user_zero) ''userId'')"
    by code_simp
  have a: "''bookId'' \<notin> fst ` set req_no_book"
    by code_simp
  have t: "truthy (get_prop (JObj req_valid) ''userId'')"
          "truthy (get_prop (JObj req_valid) ''bookId'')"
    by code_simp+
  show ?thesis
    using z a t
      invalid_input_iff_falsy [of env_live req_user_zero s_two]
      invalid_input_iff_falsy [of env_live req_no_book s_two]
      invalid_input_iff_falsy [of env_live req_valid s_two]
    by blast
qed

text \<open>
  C6 as the specification words it fails: the body \<open>{ userId: 0, bookId: 2 }\<close> has both
  identifiers, and the answer is 400.
\<close>

theorem invalid_input_counterexample:
  "map_of req_user_zero ''userId'' = Some (JNum 0) \<and>
   map_of req_user_zero ''bookId'' = Some (JNum 2) \<and>
   post_commandes env_live req_user_zero s_two =
     (\<lparr>statusCode = 400, body = Text ''userId et bookId sont requis''\<rparr>, s_two)"
  by code_simp

text \<open>
  C7. In a login request whose \<open>email\<close> and \<open>password\<close> are truthy:
  \<^item> an email that \<open>findOne\<close> does not find is answered 401 with the body
    \<open>Email ou mot de passe invalide\<close>, whatever the password is;
  \<^item> an email that it finds, with a password that is a string and that
    \<open>bcrypt.compare\<close> reports as not matching, is answered 401 with the same body;
  \<^item> an email that it finds, with a password that is not a string (a number, \<open>true\<close>,
    an array, an object), is answered 500: \<open>bcrypt.compare\<close> throws on such a value,
    and the \<open>catch\<close> of the handler answers.

  So the same password, sent for an email that exists and for one that does not, gets
  two different answers: the response tells whether the email has an account.
\<close>

theorem login_password_type_leak:
  assumes "truthy (get_prop (JObj req_body) ''email'')"
      and "truthy (get_prop (JObj req_body) ''password'')"
  shows
  "(User_findOne env (get_prop (JObj req_body) ''email'') users = Inr None \<longrightarrow>
      post_login env req_body users = send 401 ''Email ou mot de passe invalide'')
   \<and>
   (User_findOne env (get_prop (JObj req_body) ''email'') users = Inr (Some user)
      \<and> get_prop (JObj req_body) ''password'' = JStr p
      \<and> bcrypt_compare env p (password user) = Inr False \<longrightarrow>
      post_login env req_body users = send 401 ''Email ou mot de passe invalide'')
   \<and>
   (User_findOne env (get_prop (JObj req_body) ''email'') users = Inr (Some user)
      \<and> (\<forall>str. get_prop (JObj req_body) ''password'' \<noteq> JStr str) \<longrightarrow>
      post_login env req_body users = send 500 ''Erreur serveur lors de la connexion.'')
   \<and>
   send 500 ''Erreur serveur lors de la connexion.'' \<noteq> send 401 ''Email ou mot de passe invalide''"
proof -
  let ?e = "get_prop (JObj req_body) ''email''"
  let ?p = "get_prop (JObj req_body) ''password''"
  have c1: "User_findOne env ?e users = Inr None \<longrightarrow>
      post_login env req_body users = send 401 ''Email ou mot de passe invalide''"
    using assms by (simp add: post_login_def Let_def)
  have c2: "User_findOne env ?e users = Inr (Some user) \<and> ?p = JStr p
      \<and> bcrypt_compare env p (password user) = Inr False \<longrightarrow>
      post_login env req_body users = send 401 ''Email ou mot de passe invalide''"
  proof (intro impI, elim conjE)
    assume f: "User_findOne env ?e users = Inr (Some user)" and pw: "?p = JStr p"
      and b: "bcrypt_compare env p (password user) = Inr False"
    have "compare env ?p (password user) = Inr False"
      by (simp add: compare_def pw b)
    then show "post_login env req_body users = send 401 ''Email ou mot de passe invalide''"
      using assms f by (simp add: post_login_def Let_def)
  qed
  have thrown: "\<forall>str. v \<noteq> JStr str \<Longrightarrow>
      compare env v h = Inl (JsError ''Error'' ''data and hash must be strings'' JUndefined)" for v h
    by (cases v) (simp_all add: compare_def)
  have c3: "User_findOne env ?e users = Inr (Some user) \<and> (\<forall>str. ?p \<noteq> JStr str) \<longrightarrow>
      post_login env req_body users = send 500 ''Erreur serveur lors de la connexion.''"
    using assms thrown [of ?p "password user"] by (simp add: post_login_def Let_def)
  have c4: "send 500 ''Erreur serveur lors de la connexion.''
      \<noteq> send 401 ''Email ou mot de passe invalide''"
    by (simp add: send_def)
  show ?thesis
    using c1 c2 c3 c4 by (intro conjI)
qed

text \<open>
  Ada has an account. The password \<open>123\<close>, a number, is answered 500 for her email and
  401 for an email nobody has; the string \<open>guess\<close>, which is not her password, is
  answered 401 for her email. Her email sent as an array of one string finds her row
  as well.
\<close>

theorem login_password_type_leak_witness:
  "post_login env_live login_known_number [user_ada] =
     \<lparr>statusCode = 500, body = Text ''Erreur serveur lors de la connexion.''\<rparr> \<and>
   post_login env_live login_unknown_number [user_ada] =
     \<lparr>statusCode = 401, body = Text ''Email ou mot de passe invalide''\<rparr> \<and>
   post_login env_live login_wrong_password [user_ada] =
     \<lparr>statusCode = 401, body = Text ''Email ou mot de passe invalide''\<rparr> \<and>
   post_login env_live login_array_email [user_ada] =
     \<lparr>statusCode = 500, body = Text ''Erreur serveur lors de la connexion.''\<rparr> \<and>
   get_prop (JObj login_known_number) ''password'' = get_prop (JObj login_unknown_number) ''password''"
proof -
  have t1: "truthy (get_prop (JObj login_known_number) ''email'')"
           "truthy (get_prop (JObj login_known_number) ''password'')"
    by code_simp+
  have t2: "truthy (get_prop (JObj login_unknown_number) ''email'')"
           "truthy (get_prop (JObj login_unknown_number) ''password'')"
    by code_simp+
  have t3: "truthy (get_prop (JObj login_wrong_password) ''email'')"
           "truthy (get_prop (JObj login_wrong_password) ''password'')"
    by code_simp+
  have f1: "User_findOne env_live (get_prop (JObj login_known_number) ''email'') [user_ada]
      = Inr (Some user_ada)"
    by code_simp
  have n1: "\<forall>str. get_prop (JObj login_known_number) ''password'' \<noteq> JStr str"
    by (simp add: login_known_number_def get_prop_def)
  have f2: "User_findOne env_live (get_prop (JObj login_unknown_number) ''email'') [user_ada]
      = Inr None"
    by code_simp
  have f3: "User_findOne env_live (get_prop (JObj login_wrong_password) ''email'') [user_ada]
      = Inr (Some user_ada)"
    by code_simp
  have p3: "get_prop (JObj login_wrong_password) ''password'' = JStr ''guess''"
    by code_simp
  have b3: "bcrypt_compare env_live ''guess'' (password user_ada) = Inr False"
    by code_simp
  have t4: "truthy (get_prop (JObj login_array_email) ''email'')"
           "truthy (get_prop (JObj login_array_email) ''password'')"
    by code_simp+
  have f4: "User_findOne env_live (get_prop (JObj login_array_email) ''email'') [user_ada]
      = Inr (Some user_ada)"
    by code_simp
  have n4: "\<forall>str. get_prop (JObj login_array_email) ''password'' \<noteq> JStr str"
    by (simp add: login_array_email_def get_prop_def)
  have same: "get_prop (JObj login_known_number) ''password''
      = get_prop (JObj login_unknown_number) ''password''"
    by code_simp
  from login_password_type_leak [OF t1, of env_live "[user_ada]" user_ada] f1 n1
  have a1: "post_login env_live login_known_number [user_ada]
      = send 500 ''Erreur serveur lors de la connexion.''"
    by blast
  from login_password_type_leak [OF t2, of env_live "[user_ada]"] f2
  have a2: "post_login env_live login_unknown_number [user_ada]
      = send 401 ''Email ou mot de passe invalide''"
    by blast
  from login_password_type_leak [OF t3, of env_live "[user_ada]" user_ada "''guess''"] f3 p3 b3
  have a3: "post_login env_live login_wrong_password [user_ada]
      = send 401 ''Email ou mot de passe invalide''"
    by blast
  from login_password_type_leak [OF t4, of env_live "[user_ada]" user_ada] f4 n4
  have a4: "post_login env_live login_array_email [user_ada]
      = send 500 ''Erreur serveur lors de la connexion.''"
    by blast
  show ?thesis
    using a1 a2 a3 a4 same by (simp add: send_def)
qed

text \<open>
  C8. For a book that \<open>findByPk\<close> finds, with \<open>t\<close>, \<open>a\<close> and \<open>y\<close> the values that the
  handler reads from the body under \<open>title\<close>, \<open>author\<close> and \<open>year\<close> (\<open>undefined\<close> for a
  field that the body does not have):
  \<^item> if the body has one field that the handler takes (a truthy \<open>t\<close> or \<open>a\<close>, or a \<open>y\<close>
    that is not \<open>undefined\<close>), no array or object as \<open>t\<close> or \<open>a\<close>, and the \<open>save\<close> does not
    throw, the answer is 200 with the saved book, where each field taken has the value
    of the body and each other field the value it had; the row of that key is
    rewritten in the fields that changed, through their columns, and only there;
  \<^item> so a body with \<open>year\<close> and neither \<open>title\<close> nor \<open>author\<close> is answered 200 with the
    \<open>year\<close> of the body and the \<open>title\<close> and \<open>author\<close> the book had, and the row keeps its
    \<open>title\<close> and \<open>author\<close>; a \<open>year\<close> that is a number or \<open>null\<close> is read back from the row
    as it was sent;
  \<^item> a body with none of the three fields is answered 400, and so is any body where
    \<open>t\<close> and \<open>a\<close> are falsy and \<open>y\<close> is \<open>undefined\<close>;
  \<^item> an array or an object as \<open>t\<close> or \<open>a\<close> is a validation error, answered 400;
  \<^item> whenever the answer is not 200 the table is unchanged.
\<close>

theorem partial_update_frame:
  assumes "Book_findByPk env (parseInt param_id 0) books = Inr (Some row)"
  shows
  "((truthy (get_prop (JObj req_body) ''title'') \<or> truthy (get_prop (JObj req_body) ''author'')
       \<or> get_prop (JObj req_body) ''year'' \<noteq> JUndefined)
      \<and> \<not> is_structured (get_prop (JObj req_body) ''title'')
      \<and> \<not> is_structured (get_prop (JObj req_body) ''author'')
      \<and> db_error env BookSave = None \<longrightarrow>
      (\<exists>saved stored.
         put_livre env param_id req_body books =
           (json 200 (JObj (book_members saved)),
            map (\<lambda>b. if book_id b = book_id row then stored else b) books)
         \<and> Book_findByPk env (parseInt param_id 0) (snd (put_livre env param_id req_body books))
             = Inr (Some stored)
         \<and> book_id saved = book_id row \<and> book_id stored = book_id row
         \<and> title saved = (if truthy (get_prop (JObj req_body) ''title'')
                           then get_prop (JObj req_body) ''title'' else js_of_sql (title row))
         \<and> author saved = (if truthy (get_prop (JObj req_body) ''author'')
                            then get_prop (JObj req_body) ''author'' else js_of_sql (author row))
         \<and> year saved = (if get_prop (JObj req_body) ''year'' = JUndefined
                          then js_of_sql (year row) else get_prop (JObj req_body) ''year'')
         \<and> title stored = (if title saved = js_of_sql (title row) then title row
                            else text_affinity env (title saved))
         \<and> author stored = (if author saved = js_of_sql (author row) then author row
                             else text_affinity env (author saved))
         \<and> year stored = (if year saved = js_of_sql (year row) then year row
                           else integer_affinity env (year saved))
         \<and> (''title'' \<notin> fst ` set req_body \<longrightarrow>
               title saved = js_of_sql (title row) \<and> title stored = title row)
         \<and> (''author'' \<notin> fst ` set req_body \<longrightarrow>
               author saved = js_of_sql (author row) \<and> author stored = author row)
         \<and> (''year'' \<notin> fst ` set req_body \<longrightarrow>
               year saved = js_of_sql (year row) \<and> year stored = year row)))
   \<and>
   (''title'' \<notin> fst ` set req_body \<and> ''author'' \<notin> fst ` set req_body
      \<and> get_prop (JObj req_body) ''year'' = y \<and> y \<noteq> JUndefined
      \<and> db_error env BookSave = None \<longrightarrow>
      (\<exists>saved stored.
         put_livre env param_id req_body books =
           (json 200 (JObj (book_members saved)),
            map (\<lambda>b. if book_id b = book_id row then stored else b) books)
         \<and> Book_findByPk env (parseInt param_id 0) (snd (put_livre env param_id req_body books))
             = Inr (Some stored)
         \<and> book_id saved = book_id row \<and> book_id stored = book_id row
         \<and> year saved = y
         \<and> title saved = js_of_sql (title row) \<and> author saved = js_of_sql (author row)
         \<and> title stored = title row \<and> author stored = author row
         \<and> year stored = (if y = js_of_sql (year row) then year row else integer_affinity env y)
         \<and> ((\<exists>n. y = JNum n) \<or> y = JNull \<longrightarrow> js_of_sql (year stored) = y)))
   \<and>
   (\<not> truthy (get_prop (JObj req_body) ''title'') \<and> \<not> truthy (get_prop (JObj req_body) ''author'')
      \<and> get_prop (JObj req_body) ''year'' = JUndefined \<longrightarrow>
      put_livre env param_id req_body books =
        (send 400 (''Au moins un champ (titre, auteur, ann'' @ e_acute
                    @ ''e) doit '' @ e_circ @ ''tre fourni pour la mise ''
                    @ a_grave @ '' jour''), books))
   \<and>
   (''title'' \<notin> fst ` set req_body \<and> ''author'' \<notin> fst ` set req_body
      \<and> ''year'' \<notin> fst ` set req_body \<longrightarrow>
      put_livre env param_id req_body books =
        (send 400 (''Au moins un champ (titre, auteur, ann'' @ e_acute
                    @ ''e) doit '' @ e_circ @ ''tre fourni pour la mise ''
                    @ a_grave @ '' jour''), books))
   \<and>
   (is_structured (get_prop (JObj req_body) ''title'')
      \<or> is_structured (get_prop (JObj req_body) ''author'') \<longrightarrow>
      statusCode (fst (put_livre env param_id req_body books)) = 400
      \<and> snd (put_livre env param_id req_body books) = books)
   \<and>
   (statusCode (fst (put_livre env param_id req_body books)) \<noteq> 200 \<longrightarrow>
      snd (put_livre env param_id req_body books) = books)"
proof -
  let ?t = "get_prop (JObj req_body) ''title''"
  let ?a = "get_prop (JObj req_body) ''author''"
  let ?y = "get_prop (JObj req_body) ''year''"
  let ?A = "assigned (book_instance row) ?t ?a ?y"
  let ?saved = "stamped env row ?A"
  let ?stored = "written env row ?A"
  let ?p = "put_livre env param_id req_body books"
  let ?m400 = "send 400 (''Au moins un champ (titre, auteur, ann'' @ e_acute
                    @ ''e) doit '' @ e_circ @ ''tre fourni pour la mise ''
                    @ a_grave @ '' jour'')"
  note unfold = put_livre_found [OF assms, of req_body]
  have id: "book_id ?stored = book_id row" "book_id ?saved = book_id row"
    by (simp_all add: written_fields stamped_fields assigned_fields book_instance_fields)
  have after: "Book_findByPk env (parseInt param_id 0)
        (map (\<lambda>b. if book_id b = book_id row then ?stored else b) books) = Inr (Some ?stored)"
    using assms id(1) by (rule findByPk_after)
  have saved:
    "title ?saved = (if truthy ?t then ?t else js_of_sql (title row))"
    "author ?saved = (if truthy ?a then ?a else js_of_sql (author row))"
    "year ?saved = (if ?y = JUndefined then js_of_sql (year row) else ?y)"
    by (simp_all add: stamped_fields assigned_fields book_instance_fields)
  have stored:
    "title ?stored = (if title ?saved = js_of_sql (title row) then title row
                      else text_affinity env (title ?saved))"
    "author ?stored = (if author ?saved = js_of_sql (author row) then author row
                       else text_affinity env (author ?saved))"
    "year ?stored = (if year ?saved = js_of_sql (year row) then year row
                     else integer_affinity env (year ?saved))"
    by (simp_all add: written_fields stamped_fields)
  have ok: "(truthy ?t \<or> truthy ?a \<or> ?y \<noteq> JUndefined) \<Longrightarrow> \<not> is_structured ?t \<Longrightarrow>
      \<not> is_structured ?a \<Longrightarrow> db_error env BookSave = None \<Longrightarrow>
      ?p = (json 200 (JObj (book_members ?saved)),
            map (\<lambda>b. if book_id b = book_id row then ?stored else b) books)"
  proof -
    assume h: "truthy ?t \<or> truthy ?a \<or> ?y \<noteq> JUndefined" "\<not> is_structured ?t"
      "\<not> is_structured ?a" "db_error env BookSave = None"
    from h(1) have n: "(\<not> truthy ?t \<and> \<not> truthy ?a \<and> ?y = JUndefined) = False"
      by blast
    from h(2,3) have s: "(is_structured ?t \<or> is_structured ?a) = False"
      by simp
    show ?thesis
      unfolding unfold n s h(4) by simp
  qed
  have absent:
    "''title'' \<notin> fst ` set req_body \<Longrightarrow> ?t = JUndefined"
    "''author'' \<notin> fst ` set req_body \<Longrightarrow> ?a = JUndefined"
    "''year'' \<notin> fst ` set req_body \<Longrightarrow> ?y = JUndefined"
    by (simp_all add: get_prop_absent)
  have frame_title: "''title'' \<notin> fst ` set req_body \<longrightarrow>
       title ?saved = js_of_sql (title row) \<and> title ?stored = title row"
  proof
    assume "''title'' \<notin> fst ` set req_body"
    then have u: "\<not> truthy ?t"
      by (simp add: absent(1))
    have 1: "title ?saved = js_of_sql (title row)"
      unfolding saved(1) using u by simp
    show "title ?saved = js_of_sql (title row) \<and> title ?stored = title row"
      unfolding stored(1) 1 by simp
  qed
  have frame_author: "''author'' \<notin> fst ` set req_body \<longrightarrow>
       author ?saved = js_of_sql (author row) \<and> author ?stored = author row"
  proof
    assume "''author'' \<notin> fst ` set req_body"
    then have u: "\<not> truthy ?a"
      by (simp add: absent(2))
    have 1: "author ?saved = js_of_sql (author row)"
      unfolding saved(2) using u by simp
    show "author ?saved = js_of_sql (author row) \<and> author ?stored = author row"
      unfolding stored(2) 1 by simp
  qed
  have frame_year: "''year'' \<notin> fst ` set req_body \<longrightarrow>
       year ?saved = js_of_sql (year row) \<and> year ?stored = year row"
  proof
    assume "''year'' \<notin> fst ` set req_body"
    then have u: "?y = JUndefined"
      by (rule absent(3))
    have 1: "year ?saved = js_of_sql (year row)"
      unfolding saved(3) using u by simp
    show "year ?saved = js_of_sql (year row) \<and> year ?stored = year row"
      unfolding stored(3) 1 by simp
  qed
  note frame = frame_title frame_author frame_year
  have c1: "(truthy ?t \<or> truthy ?a \<or> ?y \<noteq> JUndefined)
      \<and> \<not> is_structured ?t \<and> \<not> is_structured ?a \<and> db_error env BookSave = None \<longrightarrow>
      (\<exists>saved stored.
         ?p = (json 200 (JObj (book_members saved)),
               map (\<lambda>b. if book_id b = book_id row then stored else b) books)
         \<and> Book_findByPk env (parseInt param_id 0) (snd ?p) = Inr (Some stored)
         \<and> book_id saved = book_id row \<and> book_id stored = book_id row
         \<and> title saved = (if truthy ?t then ?t else js_of_sql (title row))
         \<and> author saved = (if truthy ?a then ?a else js_of_sql (author row))
         \<and> year saved = (if ?y = JUndefined then js_of_sql (year row) else ?y)
         \<and> title stored = (if title saved = js_of_sql (title row) then title row
                            else text_affinity env (title saved))
         \<and> author stored = (if author saved = js_of_sql (author row) then author row
                             else text_affinity env (author saved))
         \<and> year stored = (if year saved = js_of_sql (year row) then year row
                           else integer_affinity env (year saved))
         \<and> (''title'' \<notin> fst ` set req_body \<longrightarrow>
               title saved = js_of_sql (title row) \<and> title stored = title row)
         \<and> (''author'' \<notin> fst ` set req_body \<longrightarrow>
               author saved = js_of_sql (author row) \<and> author stored = author row)
         \<and> (''year'' \<notin> fst ` set req_body \<longrightarrow>
               year saved = js_of_sql (year row) \<and> year stored = year row))"
  proof (intro impI, elim conjE)
    assume h: "truthy ?t \<or> truthy ?a \<or> ?y \<noteq> JUndefined" "\<not> is_structured ?t"
      "\<not> is_structured ?a" "db_error env BookSave = None"
    have p: "?p = (json 200 (JObj (book_members ?saved)),
            map (\<lambda>b. if book_id b = book_id row then ?stored else b) books)"
      using h by (rule ok)
    have a: "Book_findByPk env (parseInt param_id 0) (snd ?p) = Inr (Some ?stored)"
      unfolding p snd_conv by (rule after)
    show "\<exists>saved stored.
         ?p = (json 200 (JObj (book_members saved)),
               map (\<lambda>b. if book_id b = book_id row then stored else b) books)
         \<and> Book_findByPk env (parseInt param_id 0) (snd ?p) = Inr (Some stored)
         \<and> book_id saved = book_id row \<and> book_id stored = book_id row
         \<and> title saved = (if truthy ?t then ?t else js_of_sql (title row))
         \<and> author saved = (if truthy ?a then ?a else js_of_sql (author row))
         \<and> year saved = (if ?y = JUndefined then js_of_sql (year row) else ?y)
         \<and> title stored = (if title saved = js_of_sql (title row) then title row
                            else text_affinity env (title saved))
         \<and> author stored = (if author saved = js_of_sql (author row) then author row
                             else text_affinity env (author saved))
         \<and> year stored = (if year saved = js_of_sql (year row) then year row
                           else integer_affinity env (year saved))
         \<and> (''title'' \<notin> fst ` set req_body \<longrightarrow>
               title saved = js_of_sql (title row) \<and> title stored = title row)
         \<and> (''author'' \<notin> fst ` set req_body \<longrightarrow>
               author saved = js_of_sql (author row) \<and> author stored = author row)
         \<and> (''year'' \<notin> fst ` set req_body \<longrightarrow>
               year saved = js_of_sql (year row) \<and> year stored = year row)"
      using p a id saved stored frame
      by (intro exI [of _ ?saved] exI [of _ ?stored] conjI)
  qed
  have c2: "''title'' \<notin> fst ` set req_body \<and> ''author'' \<notin> fst ` set req_body
      \<and> ?y = y \<and> y \<noteq> JUndefined \<and> db_error env BookSave = None \<longrightarrow>
      (\<exists>saved stored.
         ?p = (json 200 (JObj (book_members saved)),
               map (\<lambda>b. if book_id b = book_id row then stored else b) books)
         \<and> Book_findByPk env (parseInt param_id 0) (snd ?p) = Inr (Some stored)
         \<and> book_id saved = book_id row \<and> book_id stored = book_id row
         \<and> year saved = y
         \<and> title saved = js_of_sql (title row) \<and> author saved = js_of_sql (author row)
         \<and> title stored = title row \<and> author stored = author row
         \<and> year stored = (if y = js_of_sql (year row) then year row else integer_affinity env y)
         \<and> ((\<exists>n. y = JNum n) \<or> y = JNull \<longrightarrow> js_of_sql (year stored) = y))"
  proof (intro impI, elim conjE)
    assume t: "''title'' \<notin> fst ` set req_body" and a: "''author'' \<notin> fst ` set req_body"
      and y: "?y = y" "y \<noteq> JUndefined" and db: "db_error env BookSave = None"
    have tu: "?t = JUndefined" and au: "?a = JUndefined"
      using absent(1) [OF t] absent(2) [OF a] by simp_all
    have p: "?p = (json 200 (JObj (book_members ?saved)),
            map (\<lambda>b. if book_id b = book_id row then ?stored else b) books)"
      using y db by (intro ok) (simp_all add: tu au)
    have f: "Book_findByPk env (parseInt param_id 0) (snd ?p) = Inr (Some ?stored)"
      unfolding p snd_conv by (rule after)
    have s: "year ?saved = y" "title ?saved = js_of_sql (title row)"
        "author ?saved = js_of_sql (author row)"
      using saved y unfolding tu au by simp_all
    have w: "title ?stored = title row" "author ?stored = author row"
        "year ?stored = (if y = js_of_sql (year row) then year row else integer_affinity env y)"
      unfolding stored s by simp_all
    have r: "(\<exists>n. y = JNum n) \<or> y = JNull \<longrightarrow> js_of_sql (year ?stored) = y"
      unfolding w using integer_affinity_roundtrip [of y env] by auto
    show "\<exists>saved stored.
         ?p = (json 200 (JObj (book_members saved)),
               map (\<lambda>b. if book_id b = book_id row then stored else b) books)
         \<and> Book_findByPk env (parseInt param_id 0) (snd ?p) = Inr (Some stored)
         \<and> book_id saved = book_id row \<and> book_id stored = book_id row
         \<and> year saved = y
         \<and> title saved = js_of_sql (title row) \<and> author saved = js_of_sql (author row)
         \<and> title stored = title row \<and> author stored = author row
         \<and> year stored = (if y = js_of_sql (year row) then year row else integer_affinity env y)
         \<and> ((\<exists>n. y = JNum n) \<or> y = JNull \<longrightarrow> js_of_sql (year stored) = y)"
      using p f id s w r
      by (intro exI [of _ ?saved] exI [of _ ?stored] conjI)
  qed
  have c3: "\<not> truthy ?t \<and> \<not> truthy ?a \<and> ?y = JUndefined \<longrightarrow> ?p = (?m400, books)"
    by (simp add: unfold)
  have c4: "''title'' \<notin> fst ` set req_body \<and> ''author'' \<notin> fst ` set req_body
      \<and> ''year'' \<notin> fst ` set req_body \<longrightarrow> ?p = (?m400, books)"
    using absent c3 by simp
  have c5: "is_structured ?t \<or> is_structured ?a \<longrightarrow>
      statusCode (fst ?p) = 400 \<and> snd ?p = books"
    using structured_truthy [of ?t] structured_truthy [of ?a]
    by (auto simp add: unfold validation_status)
  have c6: "statusCode (fst ?p) \<noteq> 200 \<longrightarrow> snd ?p = books"
    by (simp add: unfold json_status split: option.splits)
  show ?thesis
    using c1 c2 c3 c4 c5 c6 by (intro conjI)
qed

text \<open>
  Book 2 is \<open>Emma\<close>, by Jane Austen, 1815. The body \<open>{ title: "Emma, a novel" }\<close> changes
  the title and the stamp, in the answer and in the row, and nothing else. The body
  \<open>{ year: 1816 }\<close> changes the year and the stamp and nothing else. With the body
  \<open>{ year: "1816" }\<close> the answer carries the string and the row the integer 1816. The
  empty body is answered 400, and so is a body whose title is an array; the table is
  then as it was.
\<close>

theorem partial_update_frame_witness:
  "(\<exists>saved stored.
      put_livre env_live ''2'' req_title_only [book_emma] =
        (json 200 (JObj (book_members saved)), [stored])
      \<and> title saved = JStr ''Emma, a novel'' \<and> author saved = JStr ''Jane Austen''
      \<and> year saved = JNum 1815
      \<and> title stored = SqlText ''Emma, a novel'' \<and> author stored = SqlText ''Jane Austen''
      \<and> year stored = SqlInteger 1815)
   \<and> (\<exists>saved stored.
      put_livre env_live ''2'' req_year_only [book_emma] =
        (json 200 (JObj (book_members saved)), [stored])
      \<and> Book_findByPk env_live (parseInt ''2'' 0)
           (snd (put_livre env_live ''2'' req_year_only [book_emma])) = Inr (Some stored)
      \<and> title saved = JStr ''Emma'' \<and> author saved = JStr ''Jane Austen''
      \<and> year saved = JNum 1816
      \<and> title stored = SqlText ''Emma'' \<and> author stored = SqlText ''Jane Austen''
      \<and> year stored = SqlInteger 1816)
   \<and> (\<exists>saved stored.
      put_livre env_live ''2'' req_year_text [book_emma] =
        (json 200 (JObj (book_members saved)), [stored])
      \<and> year saved = JStr ''1816'' \<and> year stored = SqlInteger 1816)
   \<and> put_livre env_live ''2'' req_title_only [book_emma] =
        (\<lparr>statusCode = 200,
          body = Json (JObj [(''id'', JNum 2), (''title'', JStr ''Emma, a novel''),
                             (''author'', JStr ''Jane Austen''), (''year'', JNum 1815),
                             (''createdAt'', JNum 800), (''updatedAt'', JNum 1001)])\<rparr>,
         [book_emma\<lparr>title := SqlText ''Emma, a novel'', book_updatedAt := 1001\<rparr>])
   \<and> put_livre env_live ''2'' req_year_text [book_emma] =
        (\<lparr>statusCode = 200,
          body = Json (JObj [(''id'', JNum 2), (''title'', JStr ''Emma''),
                             (''author'', JStr ''Jane Austen''), (''year'', JStr ''1816''),
                             (''createdAt'', JNum 800), (''updatedAt'', JNum 1001)])\<rparr>,
         [book_emma\<lparr>year := SqlInteger 1816, book_updatedAt := 1001\<rparr>])
   \<and> put_livre env_live ''2'' [] [book_emma] =
        (send 400 (''Au moins un champ (titre, auteur, ann'' @ e_acute
                    @ ''e) doit '' @ e_circ @ ''tre fourni pour la mise ''
                    @ a_grave @ '' jour''), [book_emma])
   \<and> statusCode (fst (put_livre env_live ''2'' req_title_list [book_emma])) = 400
   \<and> snd (put_livre env_live ''2'' req_title_list [book_emma]) = [book_emma]"
proof -
  have f: "Book_findByPk env_live (parseInt ''2'' 0) [book_emma] = Inr (Some book_emma)"
    by code_simp
  have e: "db_error env_live BookSave = None"
    by code_simp
  have row: "title book_emma = SqlText ''Emma''" "author book_emma = SqlText ''Jane Austen''"
      "year book_emma = SqlInteger 1815"
    by (simp_all add: book_emma_def)
  have one: "map (\<lambda>b. if book_id b = book_id book_emma then x else b) [book_emma] = [x]" for x
    by simp
  have ta: "text_affinity env_live (JStr ''Emma, a novel'') = SqlText ''Emma, a novel''"
    by (rule text_affinity_text)
  have ia: "integer_affinity env_live (JNum 1816) = SqlInteger 1816"
    by (rule integer_affinity_number)
  have it: "integer_affinity env_live (JStr ''1816'') = SqlInteger 1816"
    by code_simp

  have t1: "get_prop (JObj req_title_only) ''title'' = JStr ''Emma, a novel''"
      "get_prop (JObj req_title_only) ''author'' = JUndefined"
      "get_prop (JObj req_title_only) ''year'' = JUndefined"
    by code_simp+
  have h1: "(truthy (get_prop (JObj req_title_only) ''title'')
       \<or> truthy (get_prop (JObj req_title_only) ''author'')
       \<or> get_prop (JObj req_title_only) ''year'' \<noteq> JUndefined)
      \<and> \<not> is_structured (get_prop (JObj req_title_only) ''title'')
      \<and> \<not> is_structured (get_prop (JObj req_title_only) ''author'')
      \<and> db_error env_live BookSave = None"
    unfolding t1 e by simp
  from partial_update_frame [OF f, of req_title_only, THEN conjunct1, THEN mp, OF h1]
  have c1: "\<exists>saved stored.
      put_livre env_live ''2'' req_title_only [book_emma] =
        (json 200 (JObj (book_members saved)), [stored])
      \<and> title saved = JStr ''Emma, a novel'' \<and> author saved = JStr ''Jane Austen''
      \<and> year saved = JNum 1815
      \<and> title stored = SqlText ''Emma, a novel'' \<and> author stored = SqlText ''Jane Austen''
      \<and> year stored = SqlInteger 1815"
    unfolding t1 one row by (auto simp add: ta)

  have a2: "''title'' \<notin> fst ` set req_year_only \<and> ''author'' \<notin> fst ` set req_year_only
      \<and> get_prop (JObj req_year_only) ''year'' = JNum 1816 \<and> JNum 1816 \<noteq> JUndefined
      \<and> db_error env_live BookSave = None"
    by code_simp
  from partial_update_frame [OF f, of req_year_only "JNum 1816",
      THEN conjunct2, THEN conjunct1, THEN mp, OF a2]
  have c2: "\<exists>saved stored.
      put_livre env_live ''2'' req_year_only [book_emma] =
        (json 200 (JObj (book_members saved)), [stored])
      \<and> Book_findByPk env_live (parseInt ''2'' 0)
           (snd (put_livre env_live ''2'' req_year_only [book_emma])) = Inr (Some stored)
      \<and> title saved = JStr ''Emma'' \<and> author saved = JStr ''Jane Austen''
      \<and> year saved = JNum 1816
      \<and> title stored = SqlText ''Emma'' \<and> author stored = SqlText ''Jane Austen''
      \<and> year stored = SqlInteger 1816"
    unfolding one row by (auto simp add: ia)

  have a3: "''title'' \<notin> fst ` set req_year_text \<and> ''author'' \<notin> fst ` set req_year_text
      \<and> get_prop (JObj req_year_text) ''year'' = JStr ''1816'' \<and> JStr ''1816'' \<noteq> JUndefined
      \<and> db_error env_live BookSave = None"
    by code_simp
  from partial_update_frame [OF f, of req_year_text "JStr ''1816''",
      THEN conjunct2, THEN conjunct1, THEN mp, OF a3]
  have c3: "\<exists>saved stored.
      put_livre env_live ''2'' req_year_text [book_emma] =
        (json 200 (JObj (book_members saved)), [stored])
      \<and> year saved = JStr ''1816'' \<and> year stored = SqlInteger 1816"
    unfolding one row by (auto simp add: it)

  have a4: "''title'' \<notin> fst ` set ([] :: (string \<times> jsval) list)
         \<and> ''author'' \<notin> fst ` set ([] :: (string \<times> jsval) list)
         \<and> ''year'' \<notin> fst ` set ([] :: (string \<times> jsval) list)"
    by simp
  note c4 = partial_update_frame [OF f, of "[]",
      THEN conjunct2, THEN conjunct2, THEN conjunct2, THEN conjunct1, THEN mp, OF a4]
  have a5: "is_structured (get_prop (JObj req_title_list) ''title'')
      \<or> is_structured (get_prop (JObj req_title_list) ''author'')"
    by code_simp
  note c5 = partial_update_frame [OF f, of req_title_list,
      THEN conjunct2, THEN conjunct2, THEN conjunct2, THEN conjunct2, THEN conjunct1,
      THEN mp, OF a5]
  have v1: "put_livre env_live ''2'' req_title_only [book_emma] =
        (\<lparr>statusCode = 200,
          body = Json (JObj [(''id'', JNum 2), (''title'', JStr ''Emma, a novel''),
                             (''author'', JStr ''Jane Austen''), (''year'', JNum 1815),
                             (''createdAt'', JNum 800), (''updatedAt'', JNum 1001)])\<rparr>,
         [book_emma\<lparr>title := SqlText ''Emma, a novel'', book_updatedAt := 1001\<rparr>])"
    by code_simp
  have v3: "put_livre env_live ''2'' req_year_text [book_emma] =
        (\<lparr>statusCode = 200,
          body = Json (JObj [(''id'', JNum 2), (''title'', JStr ''Emma''),
                             (''author'', JStr ''Jane Austen''), (''year'', JStr ''1816''),
                             (''createdAt'', JNum 800), (''updatedAt'', JNum 1001)])\<rparr>,
         [book_emma\<lparr>year := SqlInteger 1816, book_updatedAt := 1001\<rparr>])"
    by code_simp
  show ?thesis
    using c1 c2 c3 v1 v3 c4 c5 by (intro conjI) (erule conjunct1 conjunct2 | assumption)+
qed




text \<open>
  C10, as the handler has it. The test is \<open>if (userResponse?.data)\<close>, the truthiness of
  the payload. Where a lookup is resolved with a truthy payload, the enrichment field
  is whatever the payload has under \<open>name\<close> (or \<open>title\<close>): the unknown-user
  (unknown-book) text is not substituted. If the payload has no such member the field
  is \<open>undefined\<close>, and the JSON of the response has no member \<open>userName\<close>
  (\<open>bookTitle\<close>). An object without the member is such a payload. A resolved lookup whose
  payload is falsy (the empty string of an empty body, and also \<open>null\<close>, \<open>0\<close> and
  \<open>false\<close>) gives the text, as a rejected one does. Both handlers answer with the JSON
  of this enriched order.
\<close>

theorem sentinel_only_on_failure:
  "(http env (user_url (js_of_sql (userId order))) = Resolved st d \<and> truthy d \<longrightarrow>
      get_prop (fst (enrich env order s)) ''userName'' = get_prop d ''name'')
   \<and>
   (http env (book_url (js_of_sql (bookId order))) = Resolved st d \<and> truthy d \<longrightarrow>
      get_prop (fst (enrich env order s)) ''bookTitle'' = get_prop d ''title'')
   \<and>
   (http env (user_url (js_of_sql (userId order))) = Resolved st d \<and> truthy d
      \<and> get_prop d ''name'' = JUndefined \<longrightarrow>
      get_prop (fst (enrich env order s)) ''userName'' = JUndefined \<and>
      (\<exists>ms. to_json (fst (enrich env order s)) = JObj ms \<and> ''userName'' \<notin> fst ` set ms))
   \<and>
   (http env (book_url (js_of_sql (bookId order))) = Resolved st d \<and> truthy d
      \<and> get_prop d ''title'' = JUndefined \<longrightarrow>
      get_prop (fst (enrich env order s)) ''bookTitle'' = JUndefined \<and>
      (\<exists>ms. to_json (fst (enrich env order s)) = JObj ms \<and> ''bookTitle'' \<notin> fst ` set ms))
   \<and>
   (k \<notin> fst ` set members \<longrightarrow>
      truthy (JObj members) \<and> get_prop (JObj members) k = JUndefined)
   \<and>
   (http env (user_url (js_of_sql (userId order))) = Resolved st d \<and> \<not> truthy d \<longrightarrow>
      get_prop (fst (enrich env order s)) ''userName'' = JStr ''Utilisateur inconnu'')
   \<and>
   (http env (book_url (js_of_sql (bookId order))) = Resolved st d \<and> \<not> truthy d \<longrightarrow>
      get_prop (fst (enrich env order s)) ''bookTitle'' = JStr ''Livre inconnu'')
   \<and>
   (parseInt param_id 10 = Some n \<and> Order_findByPk env n s = Inr (Some order) \<longrightarrow>
      fst (get_commande env param_id s) =
        \<lparr>statusCode = 200, body = Json (to_json (fst (enrich env order s)))\<rparr>)
   \<and>
   (Order_findAll env s = Inr found \<longrightarrow>
      fst (get_commandes env s) =
        \<lparr>statusCode = 200,
         body = Json (JArr (map (\<lambda>order. to_json (fst (enrich env order s))) found))\<rparr>)"
proof -
  let ?E = "fst (enrich env order s)"
  have u: "http env (user_url (js_of_sql (userId order))) = Resolved st d \<Longrightarrow> truthy d \<Longrightarrow>
      ?E = enriched (order_instance order) (get_prop d ''name'')
            (if truthy (opt_data (catch_null (http env (book_url (js_of_sql (bookId order))))))
        then get_prop (opt_data (catch_null (http env (book_url (js_of_sql (bookId order)))))) ''title''
        else JStr ''Livre inconnu'')"
    by (simp add: enrich_enriched resolved_data)
  have b: "http env (book_url (js_of_sql (bookId order))) = Resolved st d \<Longrightarrow> truthy d \<Longrightarrow>
      ?E = enriched (order_instance order)
            (if truthy (opt_data (catch_null (http env (user_url (js_of_sql (userId order))))))
        then get_prop (opt_data (catch_null (http env (user_url (js_of_sql (userId order)))))) ''name''
        else JStr ''Utilisateur inconnu'') (get_prop d ''title'')"
    by (simp add: enrich_enriched resolved_data)
  have c1: "http env (user_url (js_of_sql (userId order))) = Resolved st d \<and> truthy d \<longrightarrow>
      get_prop ?E ''userName'' = get_prop d ''name''"
    using u by (simp add: enriched_members)
  have c2: "http env (book_url (js_of_sql (bookId order))) = Resolved st d \<and> truthy d \<longrightarrow>
      get_prop ?E ''bookTitle'' = get_prop d ''title''"
    using b by (simp add: enriched_members)
  have ex: "\<exists>ms. to_json ?E = JObj ms"
    unfolding enrich_enriched enriched_def by (rule to_json_obj)
  have c3: "http env (user_url (js_of_sql (userId order))) = Resolved st d \<and> truthy d
      \<and> get_prop d ''name'' = JUndefined \<longrightarrow>
      get_prop ?E ''userName'' = JUndefined \<and>
      (\<exists>ms. to_json ?E = JObj ms \<and> ''userName'' \<notin> fst ` set ms)"
    using u c1 ex enriched_userName_absent by (metis (no_types, lifting))
  have c4: "http env (book_url (js_of_sql (bookId order))) = Resolved st d \<and> truthy d
      \<and> get_prop d ''title'' = JUndefined \<longrightarrow>
      get_prop ?E ''bookTitle'' = JUndefined \<and>
      (\<exists>ms. to_json ?E = JObj ms \<and> ''bookTitle'' \<notin> fst ` set ms)"
    using b c2 ex enriched_bookTitle_absent by (metis (no_types, lifting))
  have c5: "k \<notin> fst ` set members \<longrightarrow>
      truthy (JObj members) \<and> get_prop (JObj members) k = JUndefined"
    by (simp add: get_prop_absent)
  have c6: "http env (user_url (js_of_sql (userId order))) = Resolved st d \<and> \<not> truthy d \<longrightarrow>
      get_prop ?E ''userName'' = JStr ''Utilisateur inconnu''"
    by (simp add: enrich_enriched enriched_members resolved_data)
  have c7: "http env (book_url (js_of_sql (bookId order))) = Resolved st d \<and> \<not> truthy d \<longrightarrow>
      get_prop ?E ''bookTitle'' = JStr ''Livre inconnu''"
    by (simp add: enrich_enriched enriched_members resolved_data)
  have one: "parseInt param_id 10 = Some n \<and> Order_findByPk env n s = Inr (Some order) \<longrightarrow>
      fst (get_commande env param_id s) =
        \<lparr>statusCode = 200, body = Json (to_json (fst (enrich env order s)))\<rparr>"
    using get_commande_found [of param_id n env s order] by (simp add: json_def)
  have all: "Order_findAll env s = Inr found \<longrightarrow>
      fst (get_commandes env s) =
        \<lparr>statusCode = 200,
         body = Json (JArr (map (\<lambda>order. to_json (fst (enrich env order s))) found))\<rparr>"
    using get_commandes_found [of env s found] to_json_enriched_list [of env s found]
    by (simp add: json_def)
  show ?thesis
    using c1 c2 c3 c4 c5 c6 c7 one all by blast
qed

text \<open>
  In the world where the user payload has no \<open>name\<close> and the book payload no \<open>title\<close>,
  the answer for order 1 is the seven fields of the order and nothing else.
\<close>

theorem sentinel_only_on_failure_witness:
  "http env_nameless (user_url (js_of_sql (userId order_one))) = Resolved 200 (JObj [(''id'', JNum 1)]) \<and>
   get_prop (fst (enrich env_nameless order_one s_two)) ''userName'' = JUndefined \<and>
   get_prop (fst (enrich env_nameless order_one s_two)) ''bookTitle'' = JUndefined \<and>
   (\<exists>ms. to_json (fst (enrich env_nameless order_one s_two)) = JObj ms
          \<and> ''userName'' \<notin> fst ` set ms) \<and>
   (\<exists>ms. to_json (fst (enrich env_nameless order_one s_two)) = JObj ms
          \<and> ''bookTitle'' \<notin> fst ` set ms) \<and>
   get_prop (fst (enrich env_live order_one s_two)) ''userName'' = JStr ''Ada'' \<and>
   fst (get_commande env_nameless ''1'' s_two) =
     \<lparr>statusCode = 200,
      body = Json (JObj [(''id'', JNum 1), (''userId'', JNum 1), (''bookId'', JNum 2),
                         (''dateCommande'', JNum 900), (''status'', JStr ''En cours''),
                         (''createdAt'', JNum 900), (''updatedAt'', JNum 900)])\<rparr>"
proof -
  have u: "http env_nameless (user_url (js_of_sql (userId order_one))) = Resolved 200 (JObj [(''id'', JNum 1)])"
    by code_simp
  have b: "http env_nameless (book_url (js_of_sql (bookId order_one))) = Resolved 200 (JObj [(''id'', JNum 2)])"
    by code_simp
  have tu: "truthy (JObj [(''id'', JNum 1)])" and tb: "truthy (JObj [(''id'', JNum 2)])"
    by simp_all
  have nu: "get_prop (JObj [(''id'', JNum 1)]) ''name'' = JUndefined"
    by code_simp
  have nb: "get_prop (JObj [(''id'', JNum 2)]) ''title'' = JUndefined"
    by code_simp
  have l: "http env_live (user_url (js_of_sql (userId order_one))) = Resolved 200 payload_user"
    by code_simp
  have tl: "truthy payload_user"
    by code_simp
  have nl: "get_prop payload_user ''name'' = JStr ''Ada''"
    by code_simp
  have p: "parseInt ''1'' 10 = Some 1"
    by code_simp
  have f: "Order_findByPk env_nameless 1 s_two = Inr (Some order_one)"
    by code_simp
  have j: "to_json (fst (enrich env_nameless order_one s_two)) =
      JObj [(''id'', JNum 1), (''userId'', JNum 1), (''bookId'', JNum 2),
            (''dateCommande'', JNum 900), (''status'', JStr ''En cours''),
            (''createdAt'', JNum 900), (''updatedAt'', JNum 900)]"
    by code_simp
  from sentinel_only_on_failure [of env_nameless order_one 200 "JObj [(''id'', JNum 1)]" s_two
         _ _ "''1''" 1] u tu nu p f
  have 1: "get_prop (fst (enrich env_nameless order_one s_two)) ''userName'' = JUndefined"
    and 2: "\<exists>ms. to_json (fst (enrich env_nameless order_one s_two)) = JObj ms
          \<and> ''userName'' \<notin> fst ` set ms"
    and 3: "fst (get_commande env_nameless ''1'' s_two) =
        \<lparr>statusCode = 200, body = Json (to_json (fst (enrich env_nameless order_one s_two)))\<rparr>"
    by blast+
  from sentinel_only_on_failure [of env_nameless order_one 200 "JObj [(''id'', JNum 2)]" s_two]
    b tb nb
  have 4: "get_prop (fst (enrich env_nameless order_one s_two)) ''bookTitle'' = JUndefined"
    and 5: "\<exists>ms. to_json (fst (enrich env_nameless order_one s_two)) = JObj ms
          \<and> ''bookTitle'' \<notin> fst ` set ms"
    by blast+
  from sentinel_only_on_failure [of env_live order_one 200 payload_user s_two] l tl
  have 6: "get_prop (fst (enrich env_live order_one s_two)) ''userName''
        = get_prop payload_user ''name''"
    by blast
  show ?thesis
    using u 1 2 3 4 5 6 nl j by simp
qed

text \<open>
  C10 as the specification words it fails. For order 1 the Account Service answers 200
  with the payload \<open>0\<close> and Service Livres 200 with the payload \<open>false\<close>: the two lookups
  succeed, each with a payload that is not empty and that has no \<open>name\<close> or \<open>title\<close>, and
  the two fields are the unknown-user and unknown-book texts.
\<close>

theorem sentinel_counterexample:
  "http env_falsy (user_url (js_of_sql (userId order_one))) = Resolved 200 (JNum 0) \<and>
   http env_falsy (book_url (js_of_sql (bookId order_one))) = Resolved 200 (JBool False) \<and>
   fst (get_commande env_falsy ''1'' s_two) =
     \<lparr>statusCode = 200,
      body = Json (JObj [(''id'', JNum 1), (''userId'', JNum 1), (''bookId'', JNum 2),
                         (''dateCommande'', JNum 900), (''status'', JStr ''En cours''),
                         (''createdAt'', JNum 900), (''updatedAt'', JNum 900),
                         (''userName'', JStr ''Utilisateur inconnu''),
                         (''bookTitle'', JStr ''Livre inconnu'')])\<rparr>"
  by code_simp

end
